theory Spec2Isabelle
  imports Main
begin

section \<open>Values of the host language\<close>

text \<open>
  The launcher of \<^verbatim>\<open>src/server/firefox.ts\<close> works on JavaScript strings, arrays of
  strings, plain objects and numbers.  A string is modelled as a \<^typ>\<open>string\<close>: its
  characters are the code units below 256, which covers every literal of the source.
\<close>

definition startsWith :: "string \<Rightarrow> string \<Rightarrow> bool" where
  \<comment> \<open>\<^verbatim>\<open>s.startsWith(p)\<close>\<close>
  "startsWith s p \<longleftrightarrow> take (length p) s = p"

definition truthy :: "string option \<Rightarrow> bool" where
  \<comment> \<open>a string, \<^verbatim>\<open>null\<close> or \<^verbatim>\<open>undefined\<close> used as a condition: only a non-empty string passes\<close>
  "truthy v = (case v of None \<Rightarrow> False | Some s \<Rightarrow> s \<noteq> [])"

fun Array_join :: "string list \<Rightarrow> string \<Rightarrow> string" where
  \<comment> \<open>\<^verbatim>\<open>xs.join(sep)\<close>\<close>
  "Array_join [] sep = []"
| "Array_join [x] sep = x"
| "Array_join (x # y # ys) sep = x @ sep @ Array_join (y # ys) sep"

fun nat_digits :: "nat \<Rightarrow> string" where
  \<comment> \<open>the decimal digits of a natural number, most significant first\<close>
  "nat_digits n =
     (if n < 10 then [''0123456789'' ! n]
      else nat_digits (n div 10) @ [''0123456789'' ! (n mod 10)])"

definition decimal :: "int \<Rightarrow> string" where
  \<comment> \<open>an integer in decimal digits, with a minus sign when it is negative\<close>
  "decimal n = (if n < 0 then ''-'' @ nat_digits (nat (- n)) else nat_digits (nat n))"

text \<open>
  A JavaScript number is a double.  \<open>Integer n\<close> stands for a safe integer (a magnitude of
  at most \<open>2\<^sup>5\<^sup>3 - 1\<close>; negative zero is zero), which \<^verbatim>\<open>String\<close> prints in decimal digits.
  \<open>Other text\<close> stands for any other number that is not \<^verbatim>\<open>NaN\<close> (a fraction, an infinity, a
  larger magnitude) and carries the text \<^verbatim>\<open>String\<close> gives for it, such as \<^verbatim>\<open>1e+21\<close>.
\<close>

datatype number = Integer int | NaN | Other string

fun Number_toString :: "number \<Rightarrow> string" where
  \<comment> \<open>\<^verbatim>\<open>String(x)\<close> and \<^verbatim>\<open>`${x}`\<close>\<close>
  "Number_toString (Integer n) = decimal n"
| "Number_toString NaN = ''NaN''"
| "Number_toString (Other text) = text"

fun falsy_number :: "number \<Rightarrow> bool" where
  \<comment> \<open>a number used as a condition: zero and \<^verbatim>\<open>NaN\<close> do not pass\<close>
  "falsy_number (Integer n) = (n = 0)"
| "falsy_number NaN = True"
| "falsy_number (Other text) = False"

definition template_value :: "string option \<Rightarrow> string" where
  \<comment> \<open>a string or \<^verbatim>\<open>undefined\<close> interpolated into a template literal\<close>
  "template_value v = (case v of None \<Rightarrow> ''undefined'' | Some s \<Rightarrow> s)"

subsection \<open>\<^verbatim>\<open>JSON.stringify\<close> on the values of the preference table\<close>

datatype json_value = JString string | JBoolean bool | JNumber number

definition hex_digit :: "nat \<Rightarrow> char" where
  "hex_digit n = ''0123456789abcdef'' ! n"

definition quote_char :: "char \<Rightarrow> string" where
  \<comment> \<open>one code unit inside a JSON string: the two-character escapes, \<^verbatim>\<open>\u00XX\<close> for the
      other control characters, the code unit itself otherwise\<close>
  "quote_char c =
     (if c = CHR 0x08 then [CHR 0x5C, CHR ''b'']
      else if c = CHR 0x09 then [CHR 0x5C, CHR ''t'']
      else if c = CHR 0x0A then [CHR 0x5C, CHR ''n'']
      else if c = CHR 0x0C then [CHR 0x5C, CHR ''f'']
      else if c = CHR 0x0D then [CHR 0x5C, CHR ''r'']
      else if c = CHR 0x22 then [CHR 0x5C, CHR 0x22]
      else if c = CHR 0x5C then [CHR 0x5C, CHR 0x5C]
      else if (of_char c :: nat) < 32 then
        [CHR 0x5C, CHR ''u'', CHR ''0'', CHR ''0'',
         hex_digit ((of_char c :: nat) div 16), hex_digit ((of_char c :: nat) mod 16)]
      else [c])"

definition quote_string :: "string \<Rightarrow> string" where
  "quote_string s = [CHR 0x22] @ concat (map quote_char s) @ [CHR 0x22]"

fun JSON_stringify :: "json_value \<Rightarrow> string" where
  "JSON_stringify (JString s) = quote_string s"
| "JSON_stringify (JBoolean b) = (if b then ''true'' else ''false'')"
| "JSON_stringify (JNumber x) =
     (if x = NaN \<or> x = Other ''Infinity'' \<or> x = Other ''-Infinity'' then ''null''
      else Number_toString x)"

subsection \<open>The static preference table\<close>

definition DUMMY_UMA_SERVER :: string where
  "DUMMY_UMA_SERVER = ''dummy.test''"

text \<open>
  The object literal \<^verbatim>\<open>DEFAULT_PREFERENCES\<close>, as the list of its properties in source
  order: what \<^verbatim>\<open>Object.entries\<close> returns for it, since no key is an integer index and no
  key is written twice (\<open>DEFAULT_PREFERENCES_keys_distinct\<close> below).
\<close>

definition DEFAULT_PREFERENCES :: "(string \<times> json_value) list" where
  "DEFAULT_PREFERENCES = [
    (''app.normandy.api_url'', JString ''''),
    (''app.update.checkInstallTime'', JBoolean False),
    (''app.update.disabledForTesting'', JBoolean True),
    (''apz.content_response_timeout'', JNumber (Integer 60000)),
    (''browser.contentblocking.features.standard'', JString ''-tp,tpPrivate,cookieBehavior0,-cm,-fp''),
    (''browser.dom.window.dump.enabled'', JBoolean True),
    (''browser.newtabpage.activity-stream.feeds.section.topstories'', JBoolean False),
    (''browser.newtabpage.enabled'', JBoolean False),
    (''browser.pagethumbnails.capturing_disabled'', JBoolean True),
    (''browser.safebrowsing.blockedURIs.enabled'', JBoolean False),
    (''browser.safebrowsing.downloads.enabled'', JBoolean False),
    (''browser.safebrowsing.malware.enabled'', JBoolean False),
    (''browser.safebrowsing.passwords.enabled'', JBoolean False),
    (''browser.safebrowsing.phishing.enabled'', JBoolean False),
    (''browser.search.update'', JBoolean False),
    (''browser.sessionstore.resume_from_crash'', JBoolean False),
    (''browser.shell.checkDefaultBrowser'', JBoolean False),
    (''browser.startup.homepage'', JString ''about:blank''),
    (''browser.startup.homepage_override.mstone'', JString ''ignore''),
    (''browser.startup.page'', JNumber (Integer 0)),
    (''browser.tabs.disableBackgroundZombification'', JBoolean False),
    (''browser.tabs.warnOnCloseOtherTabs'', JBoolean False),
    (''browser.tabs.warnOnOpen'', JBoolean False),
    (''browser.uitour.enabled'', JBoolean False),
    (''browser.urlbar.suggest.searches'', JBoolean False),
    (''browser.usedOnWindows10.introURL'', JString ''''),
    (''browser.warnOnQuit'', JBoolean False),
    (''datareporting.healthreport.about.reportUrl'', JString (''http://'' @ DUMMY_UMA_SERVER @ ''/dummy/abouthealthreport/'')),
    (''datareporting.healthreport.documentServerURI'', JString (''http://'' @ DUMMY_UMA_SERVER @ ''/dummy/healthreport/'')),
    (''datareporting.healthreport.logging.consoleEnabled'', JBoolean False),
    (''datareporting.healthreport.service.enabled'', JBoolean False),
    (''datareporting.healthreport.service.firstRun'', JBoolean False),
    (''datareporting.healthreport.uploadEnabled'', JBoolean False),
    (''datareporting.policy.dataSubmissionEnabled'', JBoolean False),
    (''datareporting.policy.dataSubmissionPolicyAccepted'', JBoolean False),
    (''datareporting.policy.dataSubmissionPolicyBypassNotification'', JBoolean True),
    (''devtools.jsonview.enabled'', JBoolean False),
    (''dom.disable_open_during_load'', JBoolean False),
    (''dom.file.createInChild'', JBoolean True),
    (''dom.ipc.reportProcessHangs'', JBoolean False),
    (''dom.max_chrome_script_run_time'', JNumber (Integer 0)),
    (''dom.max_script_run_time'', JNumber (Integer 0)),
    (''extensions.autoDisableScopes'', JNumber (Integer 0)),
    (''extensions.enabledScopes'', JNumber (Integer 5)),
    (''extensions.getAddons.cache.enabled'', JBoolean False),
    (''extensions.installDistroAddons'', JBoolean False),
    (''extensions.screenshots.disabled'', JBoolean True),
    (''extensions.update.enabled'', JBoolean False),
    (''extensions.update.notifyUser'', JBoolean False),
    (''extensions.webservice.discoverURL'', JString (''http://'' @ DUMMY_UMA_SERVER @ ''/dummy/discoveryURL'')),
    (''focusmanager.testmode'', JBoolean True),
    (''general.useragent.updates.enabled'', JBoolean False),
    (''geo.provider.testing'', JBoolean True),
    (''geo.wifi.scan'', JBoolean False),
    (''gfx.color_management.mode'', JNumber (Integer 0)),
    (''gfx.color_management.rendering_intent'', JNumber (Integer 3)),
    (''hangmonitor.timeout'', JNumber (Integer 0)),
    (''javascript.options.showInConsole'', JBoolean True),
    (''media.gmp-manager.updateEnabled'', JBoolean False),
    (''network.cookie.cookieBehavior'', JNumber (Integer 0)),
    (''network.http.prompt-temp-redirect'', JBoolean False),
    (''network.http.speculative-parallel-limit'', JNumber (Integer 0)),
    (''network.manage-offline-status'', JBoolean False),
    (''network.sntp.pools'', JString DUMMY_UMA_SERVER),
    (''plugin.state.flash'', JNumber (Integer 0)),
    (''privacy.trackingprotection.enabled'', JBoolean False),
    (''remote.enabled'', JBoolean True),
    (''security.certerrors.mitm.priming.enabled'', JBoolean False),
    (''security.fileuri.strict_origin_policy'', JBoolean False),
    (''security.notification_enable_delay'', JNumber (Integer 0)),
    (''services.settings.server'', JString (''http://'' @ DUMMY_UMA_SERVER @ ''/dummy/blocklist/'')),
    (''browser.tabs.documentchannel'', JBoolean False),
    (''signon.autofillForms'', JBoolean False),
    (''signon.rememberSignons'', JBoolean False),
    (''startup.homepage_welcome_url'', JString ''about:blank''),
    (''startup.homepage_welcome_url.additional'', JString ''''),
    (''toolkit.cosmeticAnimations.enabled'', JBoolean False),
    (''toolkit.telemetry.server'', JString (''https://'' @ DUMMY_UMA_SERVER @ ''/dummy/telemetry/'')),
    (''toolkit.startup.max_resumed_crashes'', JNumber (Integer (-1)))

  ]"

section \<open>Launch options, errors and the host\<close>

text \<open>
  \<^verbatim>\<open>LaunchOptions\<close>: every property is optional, and \<open>None\<close> is \<^verbatim>\<open>undefined\<close>.  The
  option \<^verbatim>\<open>ignoreDefaultArgs\<close> is a boolean or an array of strings.
\<close>

datatype ignore_default_args = IgnoreBoolean bool | IgnoreArray "string list"

record launch_options =
  ignoreDefaultArgs :: "ignore_default_args option"
  args :: "string list option"
  dumpio :: "bool option"
  executablePath :: "string option"
  env :: "(string \<rightharpoonup> string) option"
  handleSIGHUP :: "bool option"
  handleSIGINT :: "bool option"
  handleSIGTERM :: "bool option"
  timeout :: "number option"
  devtools :: "bool option"
  headless :: "bool option"

definition passthrough :: "launch_options \<Rightarrow> string list" where
  \<comment> \<open>the \<^verbatim>\<open>args\<close> of the options, with the default of the destructuring\<close>
  "passthrough options = (case args options of None \<Rightarrow> [] | Some a \<Rightarrow> a)"

datatype launch_type = Local | Server | Persistent

datatype error =
    Error string          \<comment> \<open>\<^verbatim>\<open>new Error(message)\<close>\<close>
  | TimeoutError string   \<comment> \<open>\<^verbatim>\<open>new TimeoutError(message)\<close>\<close>
  | LaunchError           \<comment> \<open>the rejection of \<^verbatim>\<open>launchProcess\<close> when the executable cannot be spawned\<close>
  | ProcessExited         \<comment> \<open>the rejection of \<^verbatim>\<open>waitForLine\<close> when the child exits first\<close>
  | Rejected              \<comment> \<open>\<^verbatim>\<open>Promise.reject()\<close> without a reason\<close>

text \<open>
  What the launcher reads from Node and from the revision fetcher.  \<^verbatim>\<open>path.join\<close>,
  \<^verbatim>\<open>path.dirname\<close> and \<^verbatim>\<open>BrowserFetcher.revisionInfo\<close> are not part of the source file and
  are parameters; \<^verbatim>\<open>fs.mkdtemp\<close> appends the random characters \<open>mkdtemp_suffix\<close> to the
  prefix it is given.
\<close>

record host =
  os_platform :: string
  os_arch :: string
  os_tmpdir :: string
  process_env :: "string \<rightharpoonup> string"
  path_join :: "string \<Rightarrow> string \<Rightarrow> string"
  path_dirname :: "string \<Rightarrow> string"
  mkdtemp_suffix :: string
  revision_local :: bool
  revision_executablePath :: string

section \<open>Assembling the arguments\<close>

definition Firefox__defaultArgs :: "launch_options \<Rightarrow> string \<Rightarrow> number \<Rightarrow> error + string list" where
  \<open>Firefox__defaultArgs options userDataDir port =
     (let devtools' = (case devtools options of None \<Rightarrow> False | Some d \<Rightarrow> d);
          headless' = (case headless options of None \<Rightarrow> \<not> devtools' | Some b \<Rightarrow> b);
          args' = (case args options of None \<Rightarrow> [] | Some a \<Rightarrow> a)
      in if devtools' then
           Inl (Error ''Option "devtools" is not supported by Firefox'')
         else if truthy (find (\<lambda>arg. startsWith arg ''-profile'' \<or> startsWith arg ''--profile'') args') then
           Inl (Error ''Pass userDataDir parameter instead of specifying -profile argument'')
         else if truthy (find (\<lambda>arg. startsWith arg ''-juggler'') args') then
           Inl (Error ''Use the port parameter instead of -juggler argument'')
         else
           Inr ([''-no-remote'']
                @ (if headless' then [''-headless''] else [''-wait-for-browser''])
                @ [''-profile'', userDataDir]
                @ [''-juggler'', Number_toString port]
                @ args'
                @ (if list_all (\<lambda>arg. startsWith arg ''-'') args' then [''about:blank''] else [])))\<close>

definition firefoxArguments :: "launch_options \<Rightarrow> string \<Rightarrow> number option \<Rightarrow> error + string list" where
  \<comment> \<open>lines 95 to 100 of \<^verbatim>\<open>_launchServer\<close>; \<^verbatim>\<open>port || 0\<close> is 0 for a port that is undefined,
      zero or \<^verbatim>\<open>NaN\<close>\<close>
  "firefoxArguments options userDataDir port =
     (let ignoreDefaultArgs' = (case ignoreDefaultArgs options of None \<Rightarrow> IgnoreBoolean False | Some i \<Rightarrow> i);
          args' = (case args options of None \<Rightarrow> [] | Some a \<Rightarrow> a);
          port' = (case port of None \<Rightarrow> Integer 0 | Some p \<Rightarrow> if falsy_number p then Integer 0 else p)
      in if ignoreDefaultArgs' = IgnoreBoolean False then
           Firefox__defaultArgs options userDataDir port'
         else
           (case ignoreDefaultArgs' of
              IgnoreArray denied \<Rightarrow>
                (case Firefox__defaultArgs options userDataDir port' of
                   Inl e \<Rightarrow> Inl e
                 | Inr defaults \<Rightarrow> Inr (filter (\<lambda>arg. \<not> List.member denied arg) defaults))
            | IgnoreBoolean _ \<Rightarrow> Inr args'))"

section \<open>Resolving the executable\<close>

definition downloadURLs :: "(string \<times> string) list" where
  "downloadURLs =
     [(''linux'', ''%s/builds/firefox/%s/firefox-linux.zip''),
      (''mac'', ''%s/builds/firefox/%s/firefox-mac.zip''),
      (''win32'', ''%s/builds/firefox/%s/firefox-win32.zip''),
      (''win64'', ''%s/builds/firefox/%s/firefox-win64.zip'')]"

definition fetcher_platform :: "host \<Rightarrow> string" where
  \<comment> \<open>the \<^verbatim>\<open>platform\<close> of \<^verbatim>\<open>defaultOptions\<close> in \<^verbatim>\<open>_createBrowserFetcher\<close>\<close>
  "fetcher_platform h =
     (if os_platform h = ''darwin'' then ''mac''
      else if os_platform h = ''linux'' then ''linux''
      else if os_platform h = ''win32'' then (if os_arch h = ''x64'' then ''win64'' else ''win32'')
      else os_platform h)"

definition Firefox__createBrowserFetcher :: "host \<Rightarrow> error + string" where
  \<comment> \<open>called without options; the result is the platform the fetcher is built for, and the
      assertion on it is the only way the call fails\<close>
  "Firefox__createBrowserFetcher h =
     (if truthy (map_of downloadURLs (fetcher_platform h)) then Inr (fetcher_platform h)
      else Inl (Error (''Unsupported platform: '' @ fetcher_platform h)))"

definition Firefox__resolveExecutablePath :: "host \<Rightarrow> error + string \<times> string option" where
  \<comment> \<open>the pair is \<^verbatim>\<open>executablePath\<close> and \<^verbatim>\<open>missingText\<close>\<close>
  \<open>Firefox__resolveExecutablePath h =
     (case Firefox__createBrowserFetcher h of
        Inl e \<Rightarrow> Inl e
      | Inr _ \<Rightarrow>
          Inr (revision_executablePath h,
               if \<not> revision_local h then Some ''Firefox revision is not downloaded. Run "npm install"''
               else None))\<close>

definition firefoxExecutable :: "host \<Rightarrow> launch_options \<Rightarrow> error + string" where
  \<comment> \<open>lines 102 to 108 of \<^verbatim>\<open>_launchServer\<close>\<close>
  "firefoxExecutable h options =
     (case executablePath options of
        Some p \<Rightarrow>
          if p \<noteq> [] then Inr p
          else (case Firefox__resolveExecutablePath h of
                  Inl e \<Rightarrow> Inl e
                | Inr (resolved, missingText) \<Rightarrow>
                    (case missingText of
                       Some text \<Rightarrow> if text \<noteq> [] then Inl (Error text) else Inr resolved
                     | None \<Rightarrow> Inr resolved))
      | None \<Rightarrow>
          (case Firefox__resolveExecutablePath h of
             Inl e \<Rightarrow> Inl e
           | Inr (resolved, missingText) \<Rightarrow>
               (case missingText of
                  Some text \<Rightarrow> if text \<noteq> [] then Inl (Error text) else Inr resolved
                | None \<Rightarrow> Inr resolved)))"

section \<open>The environment of the child\<close>

definition launch_env :: "host \<Rightarrow> launch_options \<Rightarrow> string \<Rightarrow> (string \<rightharpoonup> string)" where
  \<comment> \<open>lines 114 to 118: the \<^verbatim>\<open>env\<close> passed to \<^verbatim>\<open>launchProcess\<close>; the caller's \<^verbatim>\<open>env\<close> defaults to
      \<^verbatim>\<open>process.env\<close>\<close>
  "launch_env h options executable =
     (let env' = (case env options of None \<Rightarrow> process_env h | Some e \<Rightarrow> e)
      in if os_platform h = ''linux'' then
           env'(''LD_LIBRARY_PATH'' \<mapsto>
                  path_dirname h executable @ '':'' @ template_value (process_env h ''LD_LIBRARY_PATH''))
         else env')"

section \<open>The profile directory\<close>

definition user_pref :: "string \<times> json_value \<Rightarrow> string" where
  \<comment> \<open>the statement pushed for one entry of the table\<close>
  "user_pref entry =
     ''user_pref('' @ JSON_stringify (JString (fst entry)) @ '', '' @ JSON_stringify (snd entry) @ '');''"

definition userJS_text :: string where
  \<comment> \<open>the array \<^verbatim>\<open>userJS\<close> after the loop over the table, joined with newlines\<close>
  "userJS_text = Array_join (map user_pref DEFAULT_PREFERENCES) [CHR 0x0A]"

definition populateProfile :: "host \<Rightarrow> string \<Rightarrow> (string \<times> string) list" where
  \<comment> \<open>the asynchronous function as the list of its awaited \<^verbatim>\<open>writeFileAsync(path, data)\<close> calls,
      in order: each is started when the one before it has completed\<close>
  "populateProfile h profilePath =
     (let prefsJS = [];
          userJS = map user_pref DEFAULT_PREFERENCES
      in [(path_join h profilePath ''user.js'', Array_join userJS [CHR 0x0A]),
          (path_join h profilePath ''prefs.js'', Array_join prefsJS [CHR 0x0A])])"

section \<open>The readiness line\<close>

definition line_terminator :: "char \<Rightarrow> bool" where
  \<comment> \<open>the characters the \<^verbatim>\<open>.\<close> of a regular expression does not match: line feed and carriage
      return (the two other line terminators, U+2028 and U+2029, are above 255)\<close>
  "line_terminator c \<longleftrightarrow> c = CHR 0x0A \<or> c = CHR 0x0D"

definition readiness_regex :: "string \<Rightarrow> (string \<times> string) option" where
  \<comment> \<open>\<^verbatim>\<open>line.match(/^Juggler listening on (ws:\/\/.*)$/)\<close>: \<open>None\<close> is \<^verbatim>\<open>null\<close>, and a match is the
      pair of \<^verbatim>\<open>match[0]\<close> and \<^verbatim>\<open>match[1]\<close>\<close>
  "readiness_regex line =
     (let group = drop (length ''Juggler listening on '') line
      in if startsWith line ''Juggler listening on '' \<and> startsWith group ''ws://''
            \<and> \<not> list_ex line_terminator (drop (length ''ws://'') group)
         then Some (line, group) else None)"

section \<open>One launch as a sequence of events\<close>

record launch_process_options =
  lp_executablePath :: string
  lp_args :: "string list"
  lp_env :: "string \<rightharpoonup> string"
  lp_handleSIGINT :: bool
  lp_handleSIGTERM :: bool
  lp_handleSIGHUP :: bool
  lp_dumpio :: bool
  lp_pipe :: bool
  lp_tempDir :: "string option"

datatype event =
    Mkdtemp string                        \<comment> \<open>\<^verbatim>\<open>fs.mkdtemp\<close> created the directory\<close>
  | WriteFileCalled string string         \<comment> \<open>\<^verbatim>\<open>fs.writeFile(path, data)\<close> was called\<close>
  | WriteFileDone string                  \<comment> \<open>the write of the path completed\<close>
  | LaunchProcessCalled launch_process_options
      \<comment> \<open>\<^verbatim>\<open>launchProcess\<close> was called with these options, \<^verbatim>\<open>tempDir\<close> among them\<close>
  | ProcessSpawned launch_process_options \<comment> \<open>\<^verbatim>\<open>launchProcess\<close> started the child\<close>
  | ReadinessLineMatched string           \<comment> \<open>\<^verbatim>\<open>waitForLine\<close> resolved with the match of this line\<close>
  | NewBrowserServer "string option"      \<comment> \<open>\<^verbatim>\<open>new BrowserServer(_, _, endpoint or null)\<close>\<close>
  | NewWebSocketTransport string          \<comment> \<open>\<^verbatim>\<open>new platform.WebSocketTransport(endpoint)\<close>\<close>

text \<open>
  The state of a launch: the events so far, and the writes of an asynchronous call that
  nobody awaits.  The first write of \<open>background\<close> is in flight, the others have not
  been started.
\<close>

record world =
  trace :: "event list"
  background :: "(string \<times> string) list"

definition initial_world :: world where
  "initial_world = \<lparr>trace = [], background = []\<rparr>"

type_synonym 'a js = "world \<Rightarrow> (error + 'a) \<times> world"

definition unit_js :: "'a \<Rightarrow> 'a js" where
  "unit_js x w = (Inr x, w)"

definition lift_js :: "error + 'a \<Rightarrow> 'a js" where
  \<comment> \<open>a computation without effect: a \<^verbatim>\<open>throw\<close> is \<open>Inl\<close>\<close>
  "lift_js r w = (r, w)"

definition bind_js :: "'a js \<Rightarrow> ('a \<Rightarrow> 'b js) \<Rightarrow> 'b js" where
  \<comment> \<open>sequencing: an error ends the function\<close>
  "bind_js m f w = (case m w of (Inl e, w') \<Rightarrow> (Inl e, w') | (Inr x, w') \<Rightarrow> f x w')"

definition emit :: "event \<Rightarrow> unit js" where
  "emit e w = (Inr (), w\<lparr>trace := trace w @ [e]\<rparr>)"

definition io_completes :: "world \<Rightarrow> world" where
  \<comment> \<open>one turn of the event loop for the call nobody awaits: the write in flight completes
      and the asynchronous function runs on to its next \<^verbatim>\<open>await\<close>, starting the next write\<close>
  "io_completes w =
     (case background w of
        [] \<Rightarrow> w
      | (path, data) # rest \<Rightarrow>
          w\<lparr>trace := trace w @ [WriteFileDone path]
                  @ (case rest of [] \<Rightarrow> [] | (path', data') # _ \<Rightarrow> [WriteFileCalled path' data']),
            background := rest\<rparr>)"

definition suspend :: "nat \<Rightarrow> unit js" where
  \<comment> \<open>an \<^verbatim>\<open>await\<close> of the launcher: while it is suspended the event loop takes \<open>n\<close> turns\<close>
  "suspend n w = (Inr (), (io_completes ^^ n) w)"

definition call_without_await :: "(string \<times> string) list \<Rightarrow> unit js" where
  \<comment> \<open>calling an asynchronous function and dropping its promise: the function runs to its
      first \<^verbatim>\<open>await\<close> (the first write is started) and the caller continues\<close>
  "call_without_await writes w =
     (Inr (),
      case writes of
        [] \<Rightarrow> w
      | (path, data) # _ \<Rightarrow> w\<lparr>trace := trace w @ [WriteFileCalled path data], background := writes\<rparr>)"

text \<open>
  The child process: whether the executable can be spawned, the lines it writes to its
  standard output before the deadline of the readiness wait (or before it exits), and
  whether it exits before that deadline.  The schedule gives the number of turns the event
  loop takes during each \<^verbatim>\<open>await\<close> that follows the call of \<^verbatim>\<open>populateProfile\<close>.
\<close>

record child =
  spawnable :: bool
  stdout_lines :: "string list"
  exits_before_deadline :: bool

record schedule =
  turns_launchProcess :: nat
  turns_waitForLine :: nat

text \<open>
  Modelled from the spec: \<^verbatim>\<open>launchProcess\<close> of \<^verbatim>\<open>processLauncher.ts\<close>, which is not among the
  sources.  Section 4.2: it spawns the process with the given arguments and environment,
  and spawning an executable that cannot be spawned fails immediately.  The call itself
  is an event: it hands the options over, whether or not the spawn succeeds.
\<close>

definition launchProcess :: "child \<Rightarrow> launch_process_options \<Rightarrow> unit js" where
  "launchProcess c lpo =
     bind_js (emit (LaunchProcessCalled lpo)) (\<lambda>_.
     if spawnable c then emit (ProcessSpawned lpo) else lift_js (Inl LaunchError))"

text \<open>
  Modelled from the spec: \<^verbatim>\<open>waitForLine\<close> of \<^verbatim>\<open>processLauncher.ts\<close>, which is not among the
  sources.  Section 4.3: it reads the standard output line by line, tests each line
  against the pattern until one matches and returns the captured groups of that line; when
  the deadline passes first it fails with the timeout error it was given, and when the
  process exits first it fails as well.
\<close>

fun scan_lines :: "(string \<Rightarrow> (string \<times> string) option) \<Rightarrow> string list \<Rightarrow> (string \<times> string) option" where
  "scan_lines regex [] = None"
| "scan_lines regex (line # rest) =
     (case regex line of Some m \<Rightarrow> Some m | None \<Rightarrow> scan_lines regex rest)"

definition waitForLine ::
  "child \<Rightarrow> (string \<Rightarrow> (string \<times> string) option) \<Rightarrow> error \<Rightarrow> (string \<times> string) js" where
  "waitForLine c regex timeoutError =
     (case scan_lines regex (stdout_lines c) of
        Some m \<Rightarrow> bind_js (emit (ReadinessLineMatched (fst m))) (\<lambda>_. unit_js m)
      | None \<Rightarrow> lift_js (Inl (if exits_before_deadline c then ProcessExited else timeoutError)))"

record browser_server =
  wsEndpoint :: "string option"

record launch_result =
  browserServer :: browser_server
  transport :: "string option"

text \<open>
  \<^verbatim>\<open>_launchServer\<close> in three parts.  Lines 88 to 93: the profile directory is created when
  the caller gave none (an empty string counts as none), and \<^verbatim>\<open>populateProfile\<close> is called
  on it; the call is not awaited.  The result is \<^verbatim>\<open>userDataDir\<close> and
  \<^verbatim>\<open>temporaryProfileDir\<close>.  No asynchronous call is pending while \<^verbatim>\<open>mkdtempAsync\<close> is
  awaited, so that suspension changes nothing.
\<close>

definition mkdtemp_result :: "host \<Rightarrow> string" where
  \<comment> \<open>the directory \<^verbatim>\<open>fs.mkdtemp\<close> creates for the prefix of line 90\<close>
  "mkdtemp_result h = path_join h (os_tmpdir h) ''playwright_dev_firefox_profile-'' @ mkdtemp_suffix h"

definition provision_profile :: "host \<Rightarrow> string option \<Rightarrow> (string \<times> string option) js" where
  "provision_profile h userDataDir =
     (let mkdtempAsync =
            bind_js (emit (Mkdtemp (mkdtemp_result h))) (\<lambda>_.
            unit_js (mkdtemp_result h, Some (mkdtemp_result h)))
      in
      bind_js (case userDataDir of
                 None \<Rightarrow> mkdtempAsync
               | Some given \<Rightarrow> if given = [] then mkdtempAsync else unit_js (given, None))
        (\<lambda>(userDataDir', temporaryProfileDir).
      bind_js (call_without_await (populateProfile h userDataDir')) (\<lambda>_.
      unit_js (userDataDir', temporaryProfileDir))))"

text \<open>
  Lines 95 to 139: the arguments, the executable, and the awaited call of
  \<^verbatim>\<open>launchProcess\<close>.
\<close>

definition process_options ::
  "host \<Rightarrow> launch_options \<Rightarrow> string option \<Rightarrow> string list \<Rightarrow> string \<Rightarrow> launch_process_options" where
  \<comment> \<open>lines 112 to 124: the object passed to \<^verbatim>\<open>launchProcess\<close>, without its two callbacks\<close>
  "process_options h options temporaryProfileDir firefoxArguments' firefoxExecutable' =
     \<lparr>lp_executablePath = firefoxExecutable',
      lp_args = firefoxArguments',
      lp_env = launch_env h options firefoxExecutable',
      lp_handleSIGINT = (case handleSIGINT options of None \<Rightarrow> True | Some b \<Rightarrow> b),
      lp_handleSIGTERM = (case handleSIGTERM options of None \<Rightarrow> True | Some b \<Rightarrow> b),
      lp_handleSIGHUP = (case handleSIGHUP options of None \<Rightarrow> True | Some b \<Rightarrow> b),
      lp_dumpio = (case dumpio options of None \<Rightarrow> False | Some b \<Rightarrow> b),
      lp_pipe = False,
      lp_tempDir = (if truthy temporaryProfileDir then temporaryProfileDir else None)\<rparr>"

definition spawn_firefox ::
  "host \<Rightarrow> child \<Rightarrow> schedule \<Rightarrow> launch_options \<Rightarrow> string \<Rightarrow> string option \<Rightarrow> number option \<Rightarrow> unit js" where
  "spawn_firefox h c s options userDataDir temporaryProfileDir port =
     bind_js (lift_js (firefoxArguments options userDataDir port)) (\<lambda>firefoxArguments'.
     bind_js (lift_js (firefoxExecutable h options)) (\<lambda>firefoxExecutable'.
     bind_js (launchProcess c
                (process_options h options temporaryProfileDir firefoxArguments' firefoxExecutable')) (\<lambda>_.
     suspend (turns_launchProcess s))))"

text \<open>
  Lines 141 to 145: the awaited readiness wait, then the construction of what is returned.
\<close>

definition await_readiness :: "child \<Rightarrow> schedule \<Rightarrow> launch_options \<Rightarrow> launch_type \<Rightarrow> launch_result js" where
  "await_readiness c s options connectionType =
     (let timeout' = (case timeout options of None \<Rightarrow> Integer 30000 | Some t \<Rightarrow> t);
          timeoutError = TimeoutError (''Timed out after '' @ Number_toString timeout'
                                       @ '' ms while trying to connect to Firefox!'')
      in
      bind_js (suspend (turns_waitForLine s)) (\<lambda>_.
      bind_js (waitForLine c readiness_regex timeoutError) (\<lambda>match.
      (let browserWSEndpoint = snd match
       in bind_js (emit (NewBrowserServer (if connectionType = Server then Some browserWSEndpoint else None))) (\<lambda>_.
          if connectionType = Server then
            unit_js \<lparr>browserServer = \<lparr>wsEndpoint = Some browserWSEndpoint\<rparr>, transport = None\<rparr>
          else
            bind_js (emit (NewWebSocketTransport browserWSEndpoint)) (\<lambda>_.
            unit_js \<lparr>browserServer = \<lparr>wsEndpoint = None\<rparr>, transport = Some browserWSEndpoint\<rparr>))))))"

definition Firefox__launchServer ::
  "host \<Rightarrow> child \<Rightarrow> schedule \<Rightarrow> launch_options \<Rightarrow> launch_type \<Rightarrow> string option \<Rightarrow> number option
     \<Rightarrow> launch_result js" where
  "Firefox__launchServer h c s options connectionType userDataDir port =
     bind_js (provision_profile h userDataDir) (\<lambda>(userDataDir', temporaryProfileDir).
     bind_js (spawn_firefox h c s options userDataDir' temporaryProfileDir port) (\<lambda>_.
     await_readiness c s options connectionType))"

section \<open>After the launch: the exit notification\<close>

text \<open>
  The variables of \<^verbatim>\<open>_launchServer\<close> that its two callbacks read, and what the callbacks
  have done so far: the \<^verbatim>\<open>Events.BrowserServer.Close\<close> events emitted with their exit code
  and signal, and the endpoints a \<^verbatim>\<open>Browser.close\<close> message was sent to.  \<open>exit_status\<close>
  is the exit code and signal of the child once it has exited, and \<open>closing\<close> says that a
  graceful close has been requested.
\<close>

record supervisor =
  sv_browserServer :: "browser_server option"
  sv_browserWSEndpoint :: "string option"
  exit_status :: "(int option \<times> string option) option"
  closing :: bool
  Close_emitted :: "(int option \<times> string option) list"
  Browser_close_sent :: "string list"

definition spawned :: supervisor where
  \<comment> \<open>right after \<^verbatim>\<open>launchProcess\<close> has returned\<close>
  "spawned = \<lparr>sv_browserServer = None, sv_browserWSEndpoint = None, exit_status = None,
     closing = False, Close_emitted = [], Browser_close_sent = []\<rparr>"

definition onkill :: "int option \<Rightarrow> string option \<Rightarrow> supervisor \<Rightarrow> supervisor" where
  \<comment> \<open>lines 135 to 138\<close>
  "onkill exitCode signal sv =
     (if sv_browserServer sv \<noteq> None then sv\<lparr>Close_emitted := Close_emitted sv @ [(exitCode, signal)]\<rparr>
      else sv)"

definition attemptToGracefullyClose :: "supervisor \<Rightarrow> (error + unit) \<times> supervisor" where
  \<comment> \<open>lines 125 to 134: the message is sent over a new transport to the endpoint\<close>
  "attemptToGracefullyClose sv =
     (if sv_browserServer sv = None then (Inl Rejected, sv)
      else (Inr (), sv\<lparr>Browser_close_sent := Browser_close_sent sv @ [template_value (sv_browserWSEndpoint sv)]\<rparr>))"

definition readiness_confirmed :: "string \<Rightarrow> launch_type \<Rightarrow> supervisor \<Rightarrow> supervisor" where
  \<comment> \<open>lines 143 and 144: the two assignments after \<^verbatim>\<open>waitForLine\<close> has resolved\<close>
  "readiness_confirmed browserWSEndpoint connectionType sv =
     sv\<lparr>sv_browserWSEndpoint := Some browserWSEndpoint,
        sv_browserServer :=
          Some \<lparr>wsEndpoint = (if connectionType = Server then Some browserWSEndpoint else None)\<rparr>\<rparr>"

text \<open>
  Modelled from the spec: the process handle of \<^verbatim>\<open>launchProcess\<close> and the \<^verbatim>\<open>close\<close> and
  \<^verbatim>\<open>kill\<close> of \<^verbatim>\<open>BrowserServer\<close> (\<^verbatim>\<open>processLauncher.ts\<close> and \<^verbatim>\<open>browserServer.ts\<close>, which are
  not among the sources).  Section 3: the handle becomes exited exactly once, with the
  exit code and signal captured.  Section 4.2: the exit callback fires on that
  transition.  Section 4.5: \<^verbatim>\<open>close\<close> returns at once when the process has exited;
  otherwise it sends a single polite request and waits for the exit, falling back to a
  kill when the request cannot be made; \<^verbatim>\<open>kill\<close> terminates the process by a signal and
  is safe in every state.
\<close>

definition process_exits :: "int option \<Rightarrow> string option \<Rightarrow> supervisor \<Rightarrow> supervisor" where
  "process_exits exitCode signal sv =
     (if exit_status sv \<noteq> None then sv
      else onkill exitCode signal (sv\<lparr>exit_status := Some (exitCode, signal)\<rparr>))"

definition BrowserServer_kill :: "supervisor \<Rightarrow> supervisor" where
  "BrowserServer_kill sv = process_exits None (Some ''SIGKILL'') sv"

definition BrowserServer_close :: "supervisor \<Rightarrow> supervisor" where
  "BrowserServer_close sv =
     (if exit_status sv \<noteq> None \<or> closing sv then sv
      else (case attemptToGracefullyClose (sv\<lparr>closing := True\<rparr>) of
              (Inl _, sv') \<Rightarrow> BrowserServer_kill sv'
            | (Inr _, sv') \<Rightarrow> sv'))"

datatype lifecycle_event =
    ReadinessConfirmed string launch_type
  | ChildExits "int option" "string option"
  | CloseCalled
  | KillCalled

fun lifecycle_step :: "supervisor \<Rightarrow> lifecycle_event \<Rightarrow> supervisor" where
  "lifecycle_step sv (ReadinessConfirmed endpoint connectionType) = readiness_confirmed endpoint connectionType sv"
| "lifecycle_step sv (ChildExits exitCode signal) = process_exits exitCode signal sv"
| "lifecycle_step sv CloseCalled = BrowserServer_close sv"
| "lifecycle_step sv KillCalled = BrowserServer_kill sv"

definition lifecycle :: "lifecycle_event list \<Rightarrow> supervisor" where
  "lifecycle events = foldl lifecycle_step spawned events"

section \<open>Predicates on the events of a launch\<close>

fun is_spawn :: "event \<Rightarrow> bool" where
  "is_spawn (ProcessSpawned _) = True"
| "is_spawn _ = False"

fun is_launch_call :: "event \<Rightarrow> bool" where
  "is_launch_call (LaunchProcessCalled _) = True"
| "is_launch_call _ = False"

fun is_readiness :: "event \<Rightarrow> bool" where
  "is_readiness (ReadinessLineMatched _) = True"
| "is_readiness _ = False"

fun is_handout :: "event \<Rightarrow> bool" where
  \<comment> \<open>the construction of what the launch returns\<close>
  "is_handout (NewBrowserServer _) = True"
| "is_handout (NewWebSocketTransport _) = True"
| "is_handout _ = False"

fun is_readiness_or_handout :: "event \<Rightarrow> bool" where
  "is_readiness_or_handout (ReadinessLineMatched _) = True"
| "is_readiness_or_handout (NewBrowserServer _) = True"
| "is_readiness_or_handout (NewWebSocketTransport _) = True"
| "is_readiness_or_handout _ = False"

fun is_write_done :: "event \<Rightarrow> bool" where
  "is_write_done (WriteFileDone _) = True"
| "is_write_done _ = False"

fun handout_after_readiness :: "event list \<Rightarrow> bool" where
  \<comment> \<open>nothing is constructed before the first readiness event\<close>
  "handout_after_readiness [] = True"
| "handout_after_readiness (e # es) = (is_readiness e \<or> (\<not> is_handout e \<and> handout_after_readiness es))"

fun registered_tempDirs :: "event list \<Rightarrow> string list" where
  \<comment> \<open>the directories passed to the process launcher as \<^verbatim>\<open>tempDir\<close>\<close>
  "registered_tempDirs [] = []"
| "registered_tempDirs (LaunchProcessCalled lpo # es) =
     (case lp_tempDir lpo of None \<Rightarrow> registered_tempDirs es | Some d \<Rightarrow> d # registered_tempDirs es)"
| "registered_tempDirs (_ # es) = registered_tempDirs es"

fun created_dirs :: "event list \<Rightarrow> string list" where
  "created_dirs [] = []"
| "created_dirs (Mkdtemp d # es) = d # created_dirs es"
| "created_dirs (_ # es) = created_dirs es"

fun event_name :: "event \<Rightarrow> string" where
  "event_name (Mkdtemp d) = ''mkdtemp '' @ d"
| "event_name (WriteFileCalled path data) = ''writeFile '' @ path"
| "event_name (WriteFileDone path) = ''written '' @ path"
| "event_name (LaunchProcessCalled lpo) = ''launchProcess''"
| "event_name (ProcessSpawned lpo) = ''spawn '' @ lp_executablePath lpo"
| "event_name (ReadinessLineMatched line) = ''ready''"
| "event_name (NewBrowserServer endpoint) = ''new BrowserServer''"
| "event_name (NewWebSocketTransport endpoint) = ''new WebSocketTransport''"

section \<open>Notions used in the statements\<close>

definition profile_of :: "host \<Rightarrow> string option \<Rightarrow> string" where
  \<comment> \<open>the profile directory of a launch: the caller's, or the one created\<close>
  "profile_of h userDataDir =
     (case userDataDir of
        None \<Rightarrow> mkdtemp_result h
      | Some given \<Rightarrow> if given = [] then mkdtemp_result h else given)"

definition provisioned :: "host \<Rightarrow> string option \<Rightarrow> world" where
  \<comment> \<open>the state when line 93 has been executed\<close>
  "provisioned h userDataDir =
     \<lparr>trace = (if truthy userDataDir then [] else [Mkdtemp (mkdtemp_result h)])
              @ [WriteFileCalled (path_join h (profile_of h userDataDir) ''user.js'') userJS_text],
      background = populateProfile h (profile_of h userDataDir)\<rparr>"

definition profile_argument :: "string \<Rightarrow> bool" where
  "profile_argument arg \<longleftrightarrow> startsWith arg ''-profile'' \<or> startsWith arg ''--profile''"

definition juggler_argument :: "string \<Rightarrow> bool" where
  "juggler_argument arg \<longleftrightarrow> startsWith arg ''-juggler''"

definition invalid_combination :: "launch_options \<Rightarrow> bool" where
  \<comment> \<open>the three argument combinations the launcher refuses\<close>
  "invalid_combination options \<longleftrightarrow>
     devtools options = Some True \<or> list_ex profile_argument (passthrough options)
     \<or> list_ex juggler_argument (passthrough options)"

definition validation_errors :: "error set" where
  \<open>validation_errors =
     {Error ''Option "devtools" is not supported by Firefox'',
      Error ''Pass userDataDir parameter instead of specifying -profile argument'',
      Error ''Use the port parameter instead of -juggler argument''}\<close>

definition handed_out :: "launch_type \<Rightarrow> string \<Rightarrow> launch_result" where
  \<comment> \<open>what a launch returns for the endpoint it has read\<close>
  "handed_out connectionType endpoint =
     \<lparr>browserServer = \<lparr>wsEndpoint = (if connectionType = Server then Some endpoint else None)\<rparr>,
      transport = (if connectionType = Server then None else Some endpoint)\<rparr>"

fun is_file_event :: "event \<Rightarrow> bool" where
  "is_file_event (WriteFileCalled _ _) = True"
| "is_file_event (WriteFileDone _) = True"
| "is_file_event _ = False"

definition flag_like :: "string \<Rightarrow> bool" where
  "flag_like arg \<longleftrightarrow> startsWith arg ''-''"

definition notified_once :: "supervisor \<Rightarrow> bool" where
  \<comment> \<open>no notification before the exit, and at most the one of the exit after it\<close>
  "notified_once sv \<longleftrightarrow>
     (case exit_status sv of
        None \<Rightarrow> Close_emitted sv = []
      | Some status \<Rightarrow> Close_emitted sv = [] \<or> Close_emitted sv = [status])"

definition notified_when_exited :: "supervisor \<Rightarrow> bool" where
  \<comment> \<open>the server handle exists, and the exit has been notified exactly once if it has happened\<close>
  "notified_when_exited sv \<longleftrightarrow>
     sv_browserServer sv \<noteq> None
     \<and> (case exit_status sv of
          None \<Rightarrow> Close_emitted sv = []
        | Some status \<Rightarrow> Close_emitted sv = [status])"

fun split_lines :: "string \<Rightarrow> string list" where
  \<comment> \<open>the lines of a text: its pieces between newline characters\<close>
  "split_lines [] = [[]]"
| "split_lines (c # cs) =
     (if c = CHR 0x0A then [] # split_lines cs
      else (case split_lines cs of [] \<Rightarrow> [[c]] | l # ls \<Rightarrow> (c # l) # ls))"

definition plain_char :: "char \<Rightarrow> bool" where
  \<comment> \<open>a character that a JSON string holds as it is\<close>
  "plain_char c \<longleftrightarrow> c \<noteq> CHR 0x22 \<and> c \<noteq> CHR 0x5C \<and> 32 \<le> (of_char c :: nat)"

fun integer_or_text :: "json_value \<Rightarrow> bool" where
  \<comment> \<open>a value that is not a number, or a number that is an integer\<close>
  "integer_or_text (JNumber (Integer n)) = True"
| "integer_or_text (JNumber x) = False"
| "integer_or_text v = True"

fun plain_value :: "json_value \<Rightarrow> bool" where
  \<comment> \<open>a value whose JSON text needs no escape and no exponent\<close>
  "plain_value (JString s) = list_all plain_char s"
| "plain_value v = integer_or_text v"

definition digit_value :: "char \<Rightarrow> nat option" where
  \<comment> \<open>the value of a decimal digit\<close>
  "digit_value c =
     (if 48 \<le> (of_char c :: nat) \<and> (of_char c :: nat) \<le> 57 then Some ((of_char c :: nat) - 48)
      else None)"

fun read_digits :: "nat \<Rightarrow> string \<Rightarrow> nat option" where
  \<comment> \<open>the number that a run of decimal digits denotes, read from the left\<close>
  "read_digits acc [] = Some acc"
| "read_digits acc (c # cs) =
     (case digit_value c of None \<Rightarrow> None | Some d \<Rightarrow> read_digits (10 * acc + d) cs)"

definition read_decimal :: "string \<Rightarrow> int option" where
  \<comment> \<open>the integer that a text denotes when Firefox reads it back from \<^verbatim>\<open>user.js\<close>: decimal
      digits, after a minus sign or not\<close>
  "read_decimal s =
     (case s of
        [] \<Rightarrow> None
      | c # cs \<Rightarrow>
          if c = CHR ''-'' then (if cs = [] then None else map_option (\<lambda>k. - int k) (read_digits 0 cs))
          else map_option int (read_digits 0 s))"

definition silent_after_exit :: "supervisor \<Rightarrow> bool" where
  \<comment> \<open>the child has exited and nothing has been notified\<close>
  "silent_after_exit sv \<longleftrightarrow> exit_status sv \<noteq> None \<and> Close_emitted sv = []"

definition notified_only_with_server :: "supervisor \<Rightarrow> bool" where
  \<comment> \<open>a notification has been emitted only if the server handle exists\<close>
  "notified_only_with_server sv \<longleftrightarrow> Close_emitted sv = [] \<or> sv_browserServer sv \<noteq> None"

section \<open>Concrete launches\<close>

definition no_options :: launch_options where
  \<comment> \<open>the empty options object\<close>
  "no_options = \<lparr>ignoreDefaultArgs = None, args = None, dumpio = None, executablePath = None,
     env = None, handleSIGHUP = None, handleSIGINT = None, handleSIGTERM = None, timeout = None,
     devtools = None, headless = None\<rparr>"

definition linux_host :: host where
  "linux_host = \<lparr>os_platform = ''linux'', os_arch = ''x64'', os_tmpdir = ''/tmp'',
     process_env = [''LD_LIBRARY_PATH'' \<mapsto> ''/usr/lib'', ''HOME'' \<mapsto> ''/root''],
     path_join = (\<lambda>dir name. dir @ ''/'' @ name),
     path_dirname = (\<lambda>path. rev (drop 1 (dropWhile (\<lambda>c. c \<noteq> CHR ''/'') (rev path)))),
     mkdtemp_suffix = ''AbC123'', revision_local = True,
     revision_executablePath = ''/opt/firefox/firefox''\<rparr>"

definition juggler_child :: child where
  \<comment> \<open>a child that announces its endpoint the way Juggler does\<close>
  "juggler_child = \<lparr>spawnable = True,
     stdout_lines = [''starting'', ''Juggler listening on ws://127.0.0.1:9222/abc''],
     exits_before_deadline = False\<rparr>"


definition prompt_schedule :: schedule where
  "prompt_schedule = \<lparr>turns_launchProcess = 0, turns_waitForLine = 2\<rparr>"

section \<open>Basic facts\<close>

lemma populateProfile_writes:
  "populateProfile h profilePath =
     [(path_join h profilePath ''user.js'', userJS_text), (path_join h profilePath ''prefs.js'', [])]"
  by (simp add: populateProfile_def userJS_text_def)

lemma truthy_find:
  "(\<And>x. P x \<Longrightarrow> x \<noteq> []) \<Longrightarrow> truthy (find P xs) \<longleftrightarrow> list_ex P xs"
  by (induction xs) (auto simp: truthy_def)

lemma startsWith_nonempty: "startsWith arg p \<Longrightarrow> p \<noteq> [] \<Longrightarrow> arg \<noteq> []"
  by (auto simp: startsWith_def)

lemmas js_defs = bind_js_def unit_js_def lift_js_def emit_def suspend_def call_without_await_def
  launchProcess_def waitForLine_def initial_world_def

lemma provision_profile_eq:
  "provision_profile h userDataDir initial_world =
     (Inr (profile_of h userDataDir, if truthy userDataDir then None else Some (mkdtemp_result h)),
      provisioned h userDataDir)"
proof (cases userDataDir)
  case None
  then show ?thesis
    by (simp add: provision_profile_def js_defs populateProfile_writes profile_of_def provisioned_def
          truthy_def)
next
  case (Some given)
  then show ?thesis
    by (cases "given = []")
       (simp_all add: provision_profile_def js_defs populateProfile_writes profile_of_def
          provisioned_def truthy_def)
qed

lemma spawn_firefox_eq:
  "spawn_firefox h c s options userDataDir temporaryProfileDir port w =
     (case firefoxArguments options userDataDir port of
        Inl e \<Rightarrow> (Inl e, w)
      | Inr arguments \<Rightarrow>
          (case firefoxExecutable h options of
             Inl e \<Rightarrow> (Inl e, w)
           | Inr executable \<Rightarrow>
               if spawnable c then
                 (Inr (), (io_completes ^^ turns_launchProcess s)
                            (w\<lparr>trace := trace w
                                 @ [LaunchProcessCalled (process_options h options temporaryProfileDir arguments executable),
                                    ProcessSpawned (process_options h options temporaryProfileDir arguments executable)]\<rparr>))
               else
                 (Inl LaunchError,
                  w\<lparr>trace := trace w
                       @ [LaunchProcessCalled (process_options h options temporaryProfileDir arguments executable)]\<rparr>)))"
  by (simp add: spawn_firefox_def js_defs split: sum.splits)

lemma launch_arguments_error:
  assumes "firefoxArguments options (profile_of h userDataDir) port = Inl e"
  shows "Firefox__launchServer h c s options connectionType userDataDir port initial_world
           = (Inl e, provisioned h userDataDir)"
  using assms
  by (simp add: Firefox__launchServer_def bind_js_def provision_profile_eq spawn_firefox_eq)

lemma provisioned_no_spawn: "\<not> list_ex is_spawn (trace (provisioned h userDataDir))"
  by (simp add: provisioned_def)

lemma await_readiness_eq:
  "await_readiness c s options connectionType w =
     (case scan_lines readiness_regex (stdout_lines c) of
        None \<Rightarrow>
          (Inl (if exits_before_deadline c then ProcessExited
                else TimeoutError (''Timed out after ''
                       @ Number_toString (case timeout options of None \<Rightarrow> Integer 30000 | Some t \<Rightarrow> t)
                       @ '' ms while trying to connect to Firefox!'')),
           (io_completes ^^ turns_waitForLine s) w)
      | Some m \<Rightarrow>
          (Inr (handed_out connectionType (snd m)),
           ((io_completes ^^ turns_waitForLine s) w)
             \<lparr>trace := trace ((io_completes ^^ turns_waitForLine s) w)
                @ ReadinessLineMatched (fst m)
                # NewBrowserServer (if connectionType = Server then Some (snd m) else None)
                # (if connectionType = Server then [] else [NewWebSocketTransport (snd m)])\<rparr>))"
  by (simp add: await_readiness_def js_defs handed_out_def Let_def split: option.splits)

lemma launch_eq:
  "Firefox__launchServer h c s options connectionType userDataDir port initial_world =
     (case spawn_firefox h c s options (profile_of h userDataDir)
             (if truthy userDataDir then None else Some (mkdtemp_result h)) port
             (provisioned h userDataDir) of
        (Inl e, w) \<Rightarrow> (Inl e, w)
      | (Inr _, w) \<Rightarrow> await_readiness c s options connectionType w)"
  by (simp add: Firefox__launchServer_def bind_js_def provision_profile_eq)

lemma io_completes_trace:
  "\<exists>evs. trace (io_completes w) = trace w @ evs \<and> list_all is_file_event evs"
  by (simp add: io_completes_def split: list.splits prod.splits)

lemma io_turns_trace:
  "\<exists>evs. trace ((io_completes ^^ n) w) = trace w @ evs \<and> list_all is_file_event evs"
proof (induction n)
  case 0
  show ?case by simp
next
  case (Suc n)
  then obtain evs where evs: "trace ((io_completes ^^ n) w) = trace w @ evs" "list_all is_file_event evs"
    by blast
  obtain evs' where evs': "trace (io_completes ((io_completes ^^ n) w)) = trace ((io_completes ^^ n) w) @ evs'"
      "list_all is_file_event evs'"
    using io_completes_trace by blast
  have "trace ((io_completes ^^ Suc n) w) = trace w @ (evs @ evs')"
    using evs(1) evs'(1) by simp
  moreover have "list_all is_file_event (evs @ evs')"
    using evs(2) evs'(2) by simp
  ultimately show ?case by blast
qed

lemma file_events_no_handout: "list_all is_file_event evs \<Longrightarrow> \<not> list_ex is_handout evs"
proof (induction evs)
  case Nil
  show ?case by simp
next
  case (Cons e evs)
  then show ?case by (cases e) simp_all
qed

lemma no_handout_ok: "\<not> list_ex is_handout xs \<Longrightarrow> handout_after_readiness xs"
  by (induction xs) simp_all

lemma no_handout_then_ready:
  "\<not> list_ex is_handout xs \<Longrightarrow> handout_after_readiness (xs @ ReadinessLineMatched line # ys)"
  by (induction xs) simp_all

lemma launch_outcome:
  fixes h c s options connectionType userDataDir port
  defines "L \<equiv> Firefox__launchServer h c s options connectionType userDataDir port initial_world"
    and "before \<equiv> trace (provisioned h userDataDir)"
    and "temporaryProfileDir \<equiv> (if truthy userDataDir then None else Some (mkdtemp_result h))"
  shows "(\<exists>e. fst L = Inl e \<and> trace (snd L) = before)
       \<or> (\<exists>arguments executable.
             fst L = Inl LaunchError
             \<and> trace (snd L) = before
                  @ [LaunchProcessCalled (process_options h options temporaryProfileDir arguments executable)])
       \<or> (\<exists>e arguments executable evs.
             fst L = Inl e \<and> list_all is_file_event evs
             \<and> scan_lines readiness_regex (stdout_lines c) = None
             \<and> trace (snd L) = before
                  @ LaunchProcessCalled (process_options h options temporaryProfileDir arguments executable)
                  # ProcessSpawned (process_options h options temporaryProfileDir arguments executable) # evs)
       \<or> (\<exists>m arguments executable evs.
             fst L = Inr (handed_out connectionType (snd m)) \<and> list_all is_file_event evs
             \<and> scan_lines readiness_regex (stdout_lines c) = Some m
             \<and> trace (snd L) = before
                  @ LaunchProcessCalled (process_options h options temporaryProfileDir arguments executable)
                  # ProcessSpawned (process_options h options temporaryProfileDir arguments executable) # evs
                  @ ReadinessLineMatched (fst m)
                  # NewBrowserServer (if connectionType = Server then Some (snd m) else None)
                  # (if connectionType = Server then [] else [NewWebSocketTransport (snd m)]))"
proof -
  let ?d = "profile_of h userDataDir"
  let ?w = "provisioned h userDataDir"
  have L: "L = (case spawn_firefox h c s options ?d temporaryProfileDir port ?w of
                  (Inl e, w) \<Rightarrow> (Inl e, w)
                | (Inr _, w) \<Rightarrow> await_readiness c s options connectionType w)"
    unfolding L_def temporaryProfileDir_def by (rule launch_eq)
  show ?thesis
  proof (cases "firefoxArguments options ?d port")
    case (Inl e)
    then have "L = (Inl e, ?w)"
      by (simp add: L spawn_firefox_eq)
    then show ?thesis by (simp add: before_def)
  next
    case arguments: (Inr arguments)
    show ?thesis
    proof (cases "firefoxExecutable h options")
      case (Inl e)
      with arguments have "L = (Inl e, ?w)"
        by (simp add: L spawn_firefox_eq)
      then show ?thesis by (simp add: before_def)
    next
      case executable: (Inr executable)
      let ?lpo = "process_options h options temporaryProfileDir arguments executable"
      show ?thesis
      proof (cases "spawnable c")
        case False
        with arguments executable
        have "fst L = Inl LaunchError" and "trace (snd L) = before @ [LaunchProcessCalled ?lpo]"
          by (simp_all add: L spawn_firefox_eq before_def)
        then show ?thesis by blast
      next
        case True
        let ?w1 = "?w\<lparr>trace := trace ?w @ [LaunchProcessCalled ?lpo, ProcessSpawned ?lpo]\<rparr>"
        let ?w2 = "(io_completes ^^ turns_launchProcess s) ?w1"
        let ?w3 = "(io_completes ^^ turns_waitForLine s) ?w2"
        obtain evs1 where evs1: "trace ?w2 = trace ?w1 @ evs1" "list_all is_file_event evs1"
          using io_turns_trace by blast
        obtain evs2 where evs2: "trace ?w3 = trace ?w2 @ evs2" "list_all is_file_event evs2"
          using io_turns_trace by blast
        have t3: "trace ?w3 = before @ LaunchProcessCalled ?lpo # ProcessSpawned ?lpo # (evs1 @ evs2)"
          using evs1(1) evs2(1) by (simp add: before_def)
        have fe: "list_all is_file_event (evs1 @ evs2)"
          using evs1(2) evs2(2) by simp
        have L': "L = await_readiness c s options connectionType ?w2"
          using arguments executable True by (simp add: L spawn_firefox_eq)
        show ?thesis
        proof (cases "scan_lines readiness_regex (stdout_lines c)")
          case None
          then have "\<exists>e. fst L = Inl e" and "snd L = ?w3"
            by (simp_all add: L' await_readiness_eq)
          with t3 fe None have "\<exists>e arguments executable evs.
             fst L = Inl e \<and> list_all is_file_event evs
             \<and> scan_lines readiness_regex (stdout_lines c) = None
             \<and> trace (snd L) = before
                  @ LaunchProcessCalled (process_options h options temporaryProfileDir arguments executable)
                  # ProcessSpawned (process_options h options temporaryProfileDir arguments executable) # evs"
            by auto
          then show ?thesis by blast
        next
          case (Some m)
          then have "fst L = Inr (handed_out connectionType (snd m))"
            and "trace (snd L) = trace ?w3 @ ReadinessLineMatched (fst m)
                  # NewBrowserServer (if connectionType = Server then Some (snd m) else None)
                  # (if connectionType = Server then [] else [NewWebSocketTransport (snd m)])"
            by (simp_all add: L' await_readiness_eq)
          with t3 fe Some have "\<exists>m arguments executable evs.
             fst L = Inr (handed_out connectionType (snd m)) \<and> list_all is_file_event evs
             \<and> scan_lines readiness_regex (stdout_lines c) = Some m
             \<and> trace (snd L) = before
                  @ LaunchProcessCalled (process_options h options temporaryProfileDir arguments executable)
                  # ProcessSpawned (process_options h options temporaryProfileDir arguments executable) # evs
                  @ ReadinessLineMatched (fst m)
                  # NewBrowserServer (if connectionType = Server then Some (snd m) else None)
                  # (if connectionType = Server then [] else [NewWebSocketTransport (snd m)])"
            by auto
          then show ?thesis by blast
        qed
      qed
    qed
  qed
qed

lemma juggler_child_scan:
  "scan_lines readiness_regex (stdout_lines juggler_child)
     = Some (''Juggler listening on ws://127.0.0.1:9222/abc'', ''ws://127.0.0.1:9222/abc'')"
  by (simp add: juggler_child_def readiness_regex_def startsWith_def line_terminator_def Let_def)

lemma default_launch:
  "Firefox__launchServer linux_host juggler_child prompt_schedule no_options Local None None initial_world
     = (Inr (handed_out Local ''ws://127.0.0.1:9222/abc''),
        \<lparr>trace =
           [Mkdtemp ''/tmp/playwright_dev_firefox_profile-AbC123'',
            WriteFileCalled ''/tmp/playwright_dev_firefox_profile-AbC123/user.js'' userJS_text,
            LaunchProcessCalled (process_options linux_host no_options (Some ''/tmp/playwright_dev_firefox_profile-AbC123'')
              [''-no-remote'', ''-headless'', ''-profile'', ''/tmp/playwright_dev_firefox_profile-AbC123'',
               ''-juggler'', ''0'', ''about:blank'']
              ''/opt/firefox/firefox''),
            ProcessSpawned (process_options linux_host no_options (Some ''/tmp/playwright_dev_firefox_profile-AbC123'')
              [''-no-remote'', ''-headless'', ''-profile'', ''/tmp/playwright_dev_firefox_profile-AbC123'',
               ''-juggler'', ''0'', ''about:blank'']
              ''/opt/firefox/firefox''),
            WriteFileDone ''/tmp/playwright_dev_firefox_profile-AbC123/user.js'',
            WriteFileCalled ''/tmp/playwright_dev_firefox_profile-AbC123/prefs.js'' [],
            WriteFileDone ''/tmp/playwright_dev_firefox_profile-AbC123/prefs.js'',
            ReadinessLineMatched ''Juggler listening on ws://127.0.0.1:9222/abc'',
            NewBrowserServer None,
            NewWebSocketTransport ''ws://127.0.0.1:9222/abc''],
         background = []\<rparr>)"
  by (simp add: launch_eq spawn_firefox_eq await_readiness_eq provisioned_def profile_of_def
  mkdtemp_result_def firefoxArguments_def firefoxExecutable_def
  Firefox__resolveExecutablePath_def Firefox__createBrowserFetcher_def fetcher_platform_def
  downloadURLs_def truthy_def populateProfile_writes io_completes_def 
  linux_host_def no_options_def prompt_schedule_def numeral_2_eq_2 juggler_child_scan
  Firefox__defaultArgs_def decimal_def) (simp add: juggler_child_def)

section \<open>Validation of the arguments\<close>

lemma defaultArgs_invalid:
  assumes "invalid_combination options"
  shows "\<exists>e \<in> validation_errors. Firefox__defaultArgs options userDataDir port = Inl e"
proof -
  have p: "truthy (find (\<lambda>arg. startsWith arg ''-profile'' \<or> startsWith arg ''--profile'') xs)
             \<longleftrightarrow> list_ex profile_argument xs" for xs
    using truthy_find [of "\<lambda>arg. startsWith arg ''-profile'' \<or> startsWith arg ''--profile''" xs]
    by (auto simp: profile_argument_def[abs_def] dest: startsWith_nonempty)
  have j: "truthy (find (\<lambda>arg. startsWith arg ''-juggler'') xs) \<longleftrightarrow> list_ex juggler_argument xs" for xs
    using truthy_find [of "\<lambda>arg. startsWith arg ''-juggler''" xs]
    by (auto simp: juggler_argument_def[abs_def] dest: startsWith_nonempty)
  show ?thesis
    using assms
    unfolding Firefox__defaultArgs_def invalid_combination_def passthrough_def validation_errors_def Let_def p j
    by (auto split: option.splits)
qed

lemma firefoxArguments_invalid:
  assumes "invalid_combination options" and "ignoreDefaultArgs options \<noteq> Some (IgnoreBoolean True)"
  shows "\<exists>e \<in> validation_errors. firefoxArguments options userDataDir port = Inl e"
proof -
  obtain e where e: "e \<in> validation_errors"
      "Firefox__defaultArgs options userDataDir
         (case port of None \<Rightarrow> Integer 0 | Some p \<Rightarrow> if falsy_number p then Integer 0 else p) = Inl e"
    using defaultArgs_invalid [OF assms(1)] by blast
  show ?thesis
  proof (cases "ignoreDefaultArgs options")
    case None
    with e show ?thesis by (auto simp: firefoxArguments_def)
  next
    case (Some i)
    with assms(2) e show ?thesis
      by (cases i) (auto simp: firefoxArguments_def)
  qed
qed

text \<open>
  Claim C3, as amended.  When \<^verbatim>\<open>ignoreDefaultArgs\<close> is not exactly \<^verbatim>\<open>true\<close> and the options
  hold an invalid combination (the devtools flag set, a passthrough argument starting with
  \<^verbatim>\<open>-profile\<close> or \<^verbatim>\<open>--profile\<close>, or one starting with \<^verbatim>\<open>-juggler\<close>), the launch ends with one
  of the three descriptive errors, and no process has been spawned.
\<close>

theorem invalid_combination_rejected_before_spawn:
  assumes "invalid_combination options" and "ignoreDefaultArgs options \<noteq> Some (IgnoreBoolean True)"
  shows "fst (Firefox__launchServer h c s options connectionType userDataDir port initial_world)
           \<in> Inl ` validation_errors
         \<and> \<not> list_ex is_spawn
               (trace (snd (Firefox__launchServer h c s options connectionType userDataDir port initial_world)))"
proof -
  obtain e where e: "e \<in> validation_errors"
      "firefoxArguments options (profile_of h userDataDir) port = Inl e"
    using firefoxArguments_invalid [OF assms] by blast
  show ?thesis
    by (simp add: launch_arguments_error [OF e(2)] e(1) provisioned_no_spawn)
qed

theorem invalid_combination_rejected_witness:
  "fst (Firefox__launchServer linux_host juggler_child prompt_schedule
          (no_options\<lparr>devtools := Some True\<rparr>)
          Local None None initial_world) \<in> Inl ` validation_errors
   \<and> \<not> list_ex is_spawn
         (trace (snd (Firefox__launchServer linux_host juggler_child prompt_schedule
                        (no_options\<lparr>devtools := Some True\<rparr>)
                        Local None None initial_world)))
   \<and> fst (Firefox__launchServer linux_host juggler_child prompt_schedule
          (no_options\<lparr>args := Some [''--profile=/home/me/profile'']\<rparr>)
          Local None None initial_world) \<in> Inl ` validation_errors
   \<and> \<not> list_ex is_spawn
         (trace (snd (Firefox__launchServer linux_host juggler_child prompt_schedule
                        (no_options\<lparr>args := Some [''--profile=/home/me/profile'']\<rparr>)
                        Local None None initial_world)))
   \<and> fst (Firefox__launchServer linux_host juggler_child prompt_schedule
          (no_options\<lparr>args := Some [''-width=800'', ''-juggler=9222''],
                      ignoreDefaultArgs := Some (IgnoreArray [''-headless''])\<rparr>)
          Local None None initial_world) \<in> Inl ` validation_errors
   \<and> \<not> list_ex is_spawn
         (trace (snd (Firefox__launchServer linux_host juggler_child prompt_schedule
                        (no_options\<lparr>args := Some [''-width=800'', ''-juggler=9222''],
                      ignoreDefaultArgs := Some (IgnoreArray [''-headless''])\<rparr>)
                        Local None None initial_world)))"
proof -
  have a: "invalid_combination (no_options\<lparr>devtools := Some True\<rparr>)"
    by (simp add: invalid_combination_def no_options_def)
  have a': "ignoreDefaultArgs (no_options\<lparr>devtools := Some True\<rparr>) \<noteq> Some (IgnoreBoolean True)"
    by (simp add: no_options_def)
  have b: "invalid_combination (no_options\<lparr>args := Some [''--profile=/home/me/profile'']\<rparr>)"
    by (simp add: invalid_combination_def no_options_def passthrough_def profile_argument_def
          startsWith_def)
  have b': "ignoreDefaultArgs (no_options\<lparr>args := Some [''--profile=/home/me/profile'']\<rparr>)
              \<noteq> Some (IgnoreBoolean True)"
    by (simp add: no_options_def)
  have c: "invalid_combination
             (no_options\<lparr>args := Some [''-width=800'', ''-juggler=9222''],
                         ignoreDefaultArgs := Some (IgnoreArray [''-headless''])\<rparr>)"
    by (simp add: invalid_combination_def no_options_def passthrough_def juggler_argument_def
          startsWith_def)
  have c': "ignoreDefaultArgs
              (no_options\<lparr>args := Some [''-width=800'', ''-juggler=9222''],
                          ignoreDefaultArgs := Some (IgnoreArray [''-headless''])\<rparr>)
              \<noteq> Some (IgnoreBoolean True)"
    by (simp add: no_options_def)
  show ?thesis
    using invalid_combination_rejected_before_spawn [OF a a']
      invalid_combination_rejected_before_spawn [OF b b']
      invalid_combination_rejected_before_spawn [OF c c']
    by blast
qed

text \<open>
  The claim as stated fails when \<^verbatim>\<open>ignoreDefaultArgs\<close> is \<^verbatim>\<open>true\<close>: the devtools flag is then
  accepted, the child is spawned and the launch returns.
\<close>

lemma ignore_all_devtools_launch:
  "Firefox__launchServer linux_host juggler_child prompt_schedule
     (no_options\<lparr>devtools := Some True, ignoreDefaultArgs := Some (IgnoreBoolean True)\<rparr>)
     Local None None initial_world
     = (Inr (handed_out Local ''ws://127.0.0.1:9222/abc''),
        \<lparr>trace =
           [Mkdtemp ''/tmp/playwright_dev_firefox_profile-AbC123'',
            WriteFileCalled ''/tmp/playwright_dev_firefox_profile-AbC123/user.js'' userJS_text,
            LaunchProcessCalled
              (process_options linux_host
                 (no_options\<lparr>devtools := Some True, ignoreDefaultArgs := Some (IgnoreBoolean True)\<rparr>)
                 (Some ''/tmp/playwright_dev_firefox_profile-AbC123'') [] ''/opt/firefox/firefox''),
            ProcessSpawned
              (process_options linux_host
                 (no_options\<lparr>devtools := Some True, ignoreDefaultArgs := Some (IgnoreBoolean True)\<rparr>)
                 (Some ''/tmp/playwright_dev_firefox_profile-AbC123'') [] ''/opt/firefox/firefox''),
            WriteFileDone ''/tmp/playwright_dev_firefox_profile-AbC123/user.js'',
            WriteFileCalled ''/tmp/playwright_dev_firefox_profile-AbC123/prefs.js'' [],
            WriteFileDone ''/tmp/playwright_dev_firefox_profile-AbC123/prefs.js'',
            ReadinessLineMatched ''Juggler listening on ws://127.0.0.1:9222/abc'',
            NewBrowserServer None,
            NewWebSocketTransport ''ws://127.0.0.1:9222/abc''],
         background = []\<rparr>)"
  by (simp add: launch_eq spawn_firefox_eq await_readiness_eq provisioned_def profile_of_def
        mkdtemp_result_def firefoxArguments_def firefoxExecutable_def
        Firefox__resolveExecutablePath_def Firefox__createBrowserFetcher_def fetcher_platform_def
        downloadURLs_def truthy_def populateProfile_writes io_completes_def
        linux_host_def no_options_def prompt_schedule_def numeral_2_eq_2 juggler_child_scan)
     (simp add: juggler_child_def)

theorem devtools_accepted_when_defaults_ignored:
  "invalid_combination (no_options\<lparr>devtools := Some True, ignoreDefaultArgs := Some (IgnoreBoolean True)\<rparr>)
   \<and> fst (Firefox__launchServer linux_host juggler_child prompt_schedule
            (no_options\<lparr>devtools := Some True, ignoreDefaultArgs := Some (IgnoreBoolean True)\<rparr>)
            Local None None initial_world)
       = Inr (handed_out Local ''ws://127.0.0.1:9222/abc'')
   \<and> list_ex is_spawn
        (trace (snd (Firefox__launchServer linux_host juggler_child prompt_schedule
                       (no_options\<lparr>devtools := Some True, ignoreDefaultArgs := Some (IgnoreBoolean True)\<rparr>)
                       Local None None initial_world)))"
  by (simp add: ignore_all_devtools_launch) (simp add: invalid_combination_def no_options_def)

section \<open>The assembled arguments\<close>

lemma defaultArgs_valid:
  assumes "\<not> invalid_combination options"
  shows "Firefox__defaultArgs options userDataDir port =
           Inr ([''-no-remote'',
                 if (case headless options of None \<Rightarrow> True | Some b \<Rightarrow> b) then ''-headless''
                 else ''-wait-for-browser'',
                 ''-profile'', userDataDir, ''-juggler'', Number_toString port]
                @ passthrough options
                @ (if list_all flag_like (passthrough options) then [''about:blank''] else []))"
proof -
  let ?dev = "case devtools options of None \<Rightarrow> False | Some d \<Rightarrow> d"
  let ?prof = "truthy (find (\<lambda>arg. startsWith arg ''-profile'' \<or> startsWith arg ''--profile'') (passthrough options))"
  let ?jug = "truthy (find (\<lambda>arg. startsWith arg ''-juggler'') (passthrough options))"
  have p: "?prof \<longleftrightarrow> list_ex profile_argument (passthrough options)"
    using truthy_find [of "\<lambda>arg. startsWith arg ''-profile'' \<or> startsWith arg ''--profile''" "passthrough options"]
    by (auto simp: profile_argument_def[abs_def] dest: startsWith_nonempty)
  have j: "?jug \<longleftrightarrow> list_ex juggler_argument (passthrough options)"
    using truthy_find [of "\<lambda>arg. startsWith arg ''-juggler''" "passthrough options"]
    by (auto simp: juggler_argument_def[abs_def] dest: startsWith_nonempty)
  have dev: "\<not> ?dev"
    using assms by (auto simp: invalid_combination_def split: option.splits)
  have prof: "\<not> ?prof"
    using assms p by (simp add: invalid_combination_def)
  have jug: "\<not> ?jug"
    using assms j by (simp add: invalid_combination_def)
  show ?thesis
    using dev prof jug
    by (cases "headless options")
       (simp_all add: Firefox__defaultArgs_def Let_def passthrough_def flag_like_def[abs_def])
qed

text \<open>
  Claim C4, as amended.  \<^verbatim>\<open>_defaultArgs\<close> assembles a list exactly for the options its
  validation accepts: no devtools request and no passthrough argument starting with
  \<^verbatim>\<open>-profile\<close>, \<^verbatim>\<open>--profile\<close> or \<^verbatim>\<open>-juggler\<close>.  For those the list is the six leading
  arguments, then the passthrough arguments, then \<^verbatim>\<open>about:blank\<close> exactly when every
  passthrough argument starts with \<^verbatim>\<open>-\<close> (as for the empty list): the list then ends with
  \<^verbatim>\<open>about:blank\<close>, and otherwise nothing follows the passthrough arguments.  For all other
  options the call throws one of the three validation errors, and no list is assembled.
\<close>

theorem defaultArgs_blank_destination:
  "(\<not> invalid_combination options \<longrightarrow>
      Firefox__defaultArgs options userDataDir port =
        Inr ([''-no-remote'',
              if (case headless options of None \<Rightarrow> True | Some b \<Rightarrow> b) then ''-headless''
              else ''-wait-for-browser'',
              ''-profile'', userDataDir, ''-juggler'', Number_toString port]
             @ passthrough options
             @ (if list_all flag_like (passthrough options) then [''about:blank''] else [])))
   \<and> (invalid_combination options \<longrightarrow>
        Firefox__defaultArgs options userDataDir port \<in> Inl ` validation_errors)
   \<and> (\<forall>assembled. Firefox__defaultArgs options userDataDir port = Inr assembled \<longrightarrow>
        (if list_all flag_like (passthrough options)
         then last assembled = ''about:blank''
         else drop 6 assembled = passthrough options))"
proof -
  have invalid: "Firefox__defaultArgs options userDataDir port \<in> Inl ` validation_errors"
    if "invalid_combination options"
    using defaultArgs_invalid [OF that, of userDataDir port] by blast
  have shape: "if list_all flag_like (passthrough options)
         then last assembled = ''about:blank''
         else drop 6 assembled = passthrough options"
    if a: "Firefox__defaultArgs options userDataDir port = Inr assembled" for assembled
  proof -
    have "\<not> invalid_combination options"
      using invalid a by auto
    from defaultArgs_valid [OF this, of userDataDir port] a
    have eq: "assembled =
           [''-no-remote'',
            if (case headless options of None \<Rightarrow> True | Some b \<Rightarrow> b) then ''-headless''
            else ''-wait-for-browser'',
            ''-profile'', userDataDir, ''-juggler'', Number_toString port]
           @ passthrough options
           @ (if list_all flag_like (passthrough options) then [''about:blank''] else [])"
      by simp
    show ?thesis
      by (subst eq, subst eq) simp
  qed
  show ?thesis
    using defaultArgs_valid [of options userDataDir port] invalid shape by blast
qed

theorem defaultArgs_blank_destination_witness:
  "Firefox__defaultArgs no_options ''/tmp/profile'' (Integer 0)
     = Inr [''-no-remote'', ''-headless'', ''-profile'', ''/tmp/profile'', ''-juggler'', ''0'', ''about:blank'']
   \<and> Firefox__defaultArgs (no_options\<lparr>args := Some [''-width=800'', ''-private'']\<rparr>) ''/tmp/profile''
        (Integer 9222)
     = Inr [''-no-remote'', ''-headless'', ''-profile'', ''/tmp/profile'', ''-juggler'', ''9222'',
            ''-width=800'', ''-private'', ''about:blank'']
   \<and> Firefox__defaultArgs (no_options\<lparr>args := Some [''-private'', ''https://example.com''],
                                       headless := Some False\<rparr>) ''/tmp/profile'' (Other ''1e+21'')
     = Inr [''-no-remote'', ''-wait-for-browser'', ''-profile'', ''/tmp/profile'', ''-juggler'', ''1e+21'',
            ''-private'', ''https://example.com'']
   \<and> Firefox__defaultArgs (no_options\<lparr>args := Some [''--profile=/home/me/profile'']\<rparr>) ''/tmp/profile''
        (Integer 0) \<in> Inl ` validation_errors"
proof -
  have a: "\<not> invalid_combination no_options"
    by (simp add: invalid_combination_def no_options_def passthrough_def)
  have b: "\<not> invalid_combination (no_options\<lparr>args := Some [''-width=800'', ''-private'']\<rparr>)"
    by (simp add: invalid_combination_def no_options_def passthrough_def profile_argument_def
          juggler_argument_def startsWith_def)
  have c: "\<not> invalid_combination (no_options\<lparr>args := Some [''-private'', ''https://example.com''],
                                               headless := Some False\<rparr>)"
    by (simp add: invalid_combination_def no_options_def passthrough_def profile_argument_def
          juggler_argument_def startsWith_def)
  have d: "invalid_combination (no_options\<lparr>args := Some [''--profile=/home/me/profile'']\<rparr>)"
    by (simp add: invalid_combination_def no_options_def passthrough_def profile_argument_def
          startsWith_def)
  have 1: "Firefox__defaultArgs no_options ''/tmp/profile'' (Integer 0)
     = Inr [''-no-remote'', ''-headless'', ''-profile'', ''/tmp/profile'', ''-juggler'', ''0'', ''about:blank'']"
    using defaultArgs_blank_destination [of no_options "''/tmp/profile''" "Integer 0"] a
    by (simp add: no_options_def passthrough_def decimal_def)
  have 2: "Firefox__defaultArgs (no_options\<lparr>args := Some [''-width=800'', ''-private'']\<rparr>) ''/tmp/profile''
        (Integer 9222)
     = Inr [''-no-remote'', ''-headless'', ''-profile'', ''/tmp/profile'', ''-juggler'', ''9222'',
            ''-width=800'', ''-private'', ''about:blank'']"
    using defaultArgs_blank_destination
            [of "no_options\<lparr>args := Some [''-width=800'', ''-private'']\<rparr>" "''/tmp/profile''" "Integer 9222"] b
    by (simp add: no_options_def passthrough_def decimal_def flag_like_def startsWith_def)
  have 3: "Firefox__defaultArgs (no_options\<lparr>args := Some [''-private'', ''https://example.com''],
                                       headless := Some False\<rparr>) ''/tmp/profile'' (Other ''1e+21'')
     = Inr [''-no-remote'', ''-wait-for-browser'', ''-profile'', ''/tmp/profile'', ''-juggler'', ''1e+21'',
            ''-private'', ''https://example.com'']"
    using defaultArgs_blank_destination
            [of "no_options\<lparr>args := Some [''-private'', ''https://example.com''], headless := Some False\<rparr>"
                "''/tmp/profile''" "Other ''1e+21''"] c
    by (simp add: no_options_def passthrough_def flag_like_def startsWith_def)
  have 4: "Firefox__defaultArgs (no_options\<lparr>args := Some [''--profile=/home/me/profile'']\<rparr>) ''/tmp/profile''
        (Integer 0) \<in> Inl ` validation_errors"
    using defaultArgs_blank_destination
            [of "no_options\<lparr>args := Some [''--profile=/home/me/profile'']\<rparr>" "''/tmp/profile''" "Integer 0"] d
    by blast
  from 1 2 3 4 show ?thesis by blast
qed

text \<open>
  The claim as stated fails for a list whose arguments all start with \<^verbatim>\<open>-\<close> and one of which
  the validation refuses: for \<^verbatim>\<open>['-juggler=9222']\<close> no list is assembled, with or without
  \<^verbatim>\<open>about:blank\<close>.
\<close>

theorem flag_like_juggler_argument_rejected:
  "list_all flag_like [''-juggler=9222'']
   \<and> Firefox__defaultArgs (no_options\<lparr>args := Some [''-juggler=9222'']\<rparr>) ''/tmp/profile'' (Integer 0)
       = Inl (Error ''Use the port parameter instead of -juggler argument'')"
  by (simp add: flag_like_def startsWith_def Firefox__defaultArgs_def no_options_def truthy_def)

text \<open>
  Claim C10.  With \<^verbatim>\<open>ignoreDefaultArgs\<close> exactly \<^verbatim>\<open>true\<close> the argument list of the launch is the
  caller's passthrough arguments and nothing else, whatever the other options are: no
  validation can fail, since the result is never an error.
\<close>

theorem ignoreDefaultArgs_true_passes_args:
  "firefoxArguments (options\<lparr>ignoreDefaultArgs := Some (IgnoreBoolean True)\<rparr>) userDataDir port
     = Inr (passthrough options)"
  by (simp add: firefoxArguments_def passthrough_def)

section \<open>Readiness before the handout\<close>

lemma scan_lines_Some:
  "scan_lines regex lines = Some m \<Longrightarrow> \<exists>line. line \<in> set lines \<and> regex line = Some m"
proof (induction lines)
  case Nil
  then show ?case by simp
next
  case (Cons l lines)
  then show ?case
    by (cases "regex l") auto
qed

lemma readiness_regex_whole: "readiness_regex line = Some m \<Longrightarrow> fst m = line"
  by (auto simp: readiness_regex_def Let_def split: if_splits)

text \<open>
  Claim C2.  In every launch nothing that is returned is constructed before the
  readiness event.  A launch that fails constructs neither the server nor the transport.
  A launch that returns has read a line of the child's standard output that matches the
  readiness pattern, and what it returns (the server with its endpoint, or the transport
  bound to it) is built from the endpoint captured on that line.
\<close>

theorem handout_only_after_readiness:
  "let L = Firefox__launchServer h c s options connectionType userDataDir port initial_world
   in handout_after_readiness (trace (snd L))
      \<and> (case fst L of
            Inl e \<Rightarrow> \<not> list_ex is_handout (trace (snd L))
          | Inr returned \<Rightarrow>
              (\<exists>line endpoint.
                 line \<in> set (stdout_lines c) \<and> readiness_regex line = Some (line, endpoint)
                 \<and> ReadinessLineMatched line \<in> set (trace (snd L))
                 \<and> returned = handed_out connectionType endpoint))"
proof -
  define L where "L = Firefox__launchServer h c s options connectionType userDataDir port initial_world"
  define before where "before = trace (provisioned h userDataDir)"
  have quiet: "\<not> list_ex is_handout before"
    by (simp add: before_def provisioned_def)
  have outcome:
    "(\<exists>e rest. fst L = Inl e \<and> trace (snd L) = before @ rest \<and> \<not> list_ex is_handout rest)
     \<or> (\<exists>m rest. fst L = Inr (handed_out connectionType (snd m)) \<and> \<not> list_ex is_handout rest
           \<and> scan_lines readiness_regex (stdout_lines c) = Some m
           \<and> trace (snd L) = (before @ rest)
                @ ReadinessLineMatched (fst m)
                # NewBrowserServer (if connectionType = Server then Some (snd m) else None)
                # (if connectionType = Server then [] else [NewWebSocketTransport (snd m)]))"
    using launch_outcome [of h c s options connectionType userDataDir port]
    unfolding L_def [symmetric] before_def [symmetric]
  proof (elim disjE exE conjE)
    fix e
    assume "fst L = Inl e" "trace (snd L) = before"
    then have "fst L = Inl e \<and> trace (snd L) = before @ [] \<and> \<not> list_ex is_handout []"
      by simp
    then show ?thesis by blast
  next
    fix arguments executable
    let ?lpo = "process_options h options
                  (if truthy userDataDir then None else Some (mkdtemp_result h)) arguments executable"
    assume "fst L = Inl LaunchError" "trace (snd L) = before @ [LaunchProcessCalled ?lpo]"
    then have "fst L = Inl LaunchError \<and> trace (snd L) = before @ [LaunchProcessCalled ?lpo]
                 \<and> \<not> list_ex is_handout [LaunchProcessCalled ?lpo]"
      by simp
    then show ?thesis by blast
  next
    fix e arguments executable evs
    let ?lpo = "process_options h options
                  (if truthy userDataDir then None else Some (mkdtemp_result h)) arguments executable"
    assume a: "fst L = Inl e" "list_all is_file_event evs"
      "trace (snd L) = before @ LaunchProcessCalled ?lpo # ProcessSpawned ?lpo # evs"
    have "\<not> list_ex is_handout (LaunchProcessCalled ?lpo # ProcessSpawned ?lpo # evs)"
      using file_events_no_handout [OF a(2)] by simp
    with a(1,3) show ?thesis by blast
  next
    fix m arguments executable evs
    let ?lpo = "process_options h options
                  (if truthy userDataDir then None else Some (mkdtemp_result h)) arguments executable"
    assume a: "fst L = Inr (handed_out connectionType (snd m))" "list_all is_file_event evs"
      "scan_lines readiness_regex (stdout_lines c) = Some m"
      "trace (snd L) = before @ LaunchProcessCalled ?lpo # ProcessSpawned ?lpo # evs
         @ ReadinessLineMatched (fst m)
         # NewBrowserServer (if connectionType = Server then Some (snd m) else None)
         # (if connectionType = Server then [] else [NewWebSocketTransport (snd m)])"
    have "\<not> list_ex is_handout (LaunchProcessCalled ?lpo # ProcessSpawned ?lpo # evs)"
      using file_events_no_handout [OF a(2)] by simp
    moreover have "trace (snd L) = (before @ LaunchProcessCalled ?lpo # ProcessSpawned ?lpo # evs)
         @ ReadinessLineMatched (fst m)
         # NewBrowserServer (if connectionType = Server then Some (snd m) else None)
         # (if connectionType = Server then [] else [NewWebSocketTransport (snd m)])"
      using a(4) by simp
    ultimately show ?thesis
      using a(1,3) by blast
  qed
  then consider
    (failed) e rest where "fst L = Inl e" "trace (snd L) = before @ rest" "\<not> list_ex is_handout rest"
  | (ready) m rest where "fst L = Inr (handed_out connectionType (snd m))"
      "\<not> list_ex is_handout rest" "scan_lines readiness_regex (stdout_lines c) = Some m"
      "trace (snd L) = (before @ rest)
         @ ReadinessLineMatched (fst m)
         # NewBrowserServer (if connectionType = Server then Some (snd m) else None)
         # (if connectionType = Server then [] else [NewWebSocketTransport (snd m)])"
    by blast
  then have "handout_after_readiness (trace (snd L))
      \<and> (case fst L of
            Inl e \<Rightarrow> \<not> list_ex is_handout (trace (snd L))
          | Inr returned \<Rightarrow>
              (\<exists>line endpoint.
                 line \<in> set (stdout_lines c) \<and> readiness_regex line = Some (line, endpoint)
                 \<and> ReadinessLineMatched line \<in> set (trace (snd L))
                 \<and> returned = handed_out connectionType endpoint))"
  proof cases
    case failed
    have "\<not> list_ex is_handout (before @ rest)"
      using quiet failed(3) by simp
    with failed show ?thesis by (simp add: no_handout_ok)
  next
    case ready
    have q: "\<not> list_ex is_handout (before @ rest)"
      using quiet ready(2) by simp
    obtain line where line: "line \<in> set (stdout_lines c)" "readiness_regex line = Some m"
      using scan_lines_Some [OF ready(3)] by blast
    have fm: "fst m = line"
      by (rule readiness_regex_whole [OF line(2)])
    then have m: "m = (line, snd m)"
      by (cases m) simp
    have "ReadinessLineMatched line \<in> set (trace (snd L))"
      by (simp add: ready(4) fm)
    moreover have "readiness_regex line = Some (line, snd m)"
      using line(2) m by simp
    moreover have "handout_after_readiness (trace (snd L))"
      unfolding ready(4) by (rule no_handout_then_ready [OF q])
    ultimately show ?thesis
      using line(1) ready(1) by auto
  qed
  then show ?thesis
    unfolding L_def Let_def .
qed

theorem handout_only_after_readiness_witness:
  "handout_after_readiness
     (trace (snd (Firefox__launchServer linux_host juggler_child prompt_schedule no_options Local None None
                    initial_world)))
   \<and> fst (Firefox__launchServer linux_host juggler_child prompt_schedule no_options Local None None
            initial_world)
       = Inr (handed_out Local ''ws://127.0.0.1:9222/abc'')"
  using handout_only_after_readiness
          [of linux_host juggler_child prompt_schedule no_options Local None None]
  by (simp add: Let_def default_launch)

section \<open>The shape of the readiness line\<close>








section \<open>The events of a launch\<close>

text \<open>
  The events of a launch, in order: those of lines 88 to 93; then, when the arguments and
  the executable are found, the call of the process launcher; then, when the spawn
  succeeds, the spawn, events of the files, and last the readiness event and the
  constructions.
\<close>

lemma launch_trace_shape:
  fixes h c s options connectionType userDataDir port
  defines "L \<equiv> Firefox__launchServer h c s options connectionType userDataDir port initial_world"
    and "t \<equiv> (if truthy userDataDir then None else Some (mkdtemp_result h))"
  shows "trace (snd L) = trace (provisioned h userDataDir)
       \<or> (\<exists>arguments executable.
            trace (snd L) = trace (provisioned h userDataDir)
              @ [LaunchProcessCalled (process_options h options t arguments executable)])
       \<or> (\<exists>arguments executable evs rest.
            list_all is_file_event evs \<and> list_all is_readiness_or_handout rest
            \<and> trace (snd L) = trace (provisioned h userDataDir)
                 @ [LaunchProcessCalled (process_options h options t arguments executable),
                    ProcessSpawned (process_options h options t arguments executable)]
                 @ evs @ rest)"
  using launch_outcome [of h c s options connectionType userDataDir port]
  unfolding L_def [symmetric] t_def [symmetric]
proof (elim disjE exE conjE)
  fix e
  assume "trace (snd L) = trace (provisioned h userDataDir)"
  then show ?thesis by blast
next
  fix arguments executable
  assume "trace (snd L) = trace (provisioned h userDataDir)
            @ [LaunchProcessCalled (process_options h options t arguments executable)]"
  then show ?thesis by blast
next
  fix e arguments executable evs
  assume a: "list_all is_file_event evs"
    "trace (snd L) = trace (provisioned h userDataDir)
       @ LaunchProcessCalled (process_options h options t arguments executable)
       # ProcessSpawned (process_options h options t arguments executable) # evs"
  have "list_all is_readiness_or_handout []" by simp
  moreover have "trace (snd L) = trace (provisioned h userDataDir)
       @ [LaunchProcessCalled (process_options h options t arguments executable),
          ProcessSpawned (process_options h options t arguments executable)] @ evs @ []"
    using a(2) by simp
  ultimately show ?thesis
    using a(1) by blast
next
  fix m arguments executable evs
  assume a: "list_all is_file_event evs"
    "trace (snd L) = trace (provisioned h userDataDir)
       @ LaunchProcessCalled (process_options h options t arguments executable)
       # ProcessSpawned (process_options h options t arguments executable) # evs
       @ ReadinessLineMatched (fst m)
       # NewBrowserServer (if connectionType = Server then Some (snd m) else None)
       # (if connectionType = Server then [] else [NewWebSocketTransport (snd m)])"
  let ?rest = "ReadinessLineMatched (fst m)
       # NewBrowserServer (if connectionType = Server then Some (snd m) else None)
       # (if connectionType = Server then [] else [NewWebSocketTransport (snd m)])"
  have "list_all is_readiness_or_handout ?rest" by simp
  moreover have "trace (snd L) = trace (provisioned h userDataDir)
       @ [LaunchProcessCalled (process_options h options t arguments executable),
          ProcessSpawned (process_options h options t arguments executable)] @ evs @ ?rest"
    using a(2) by simp
  ultimately show ?thesis
    using a(1) by blast
qed

section \<open>The profile is not awaited\<close>

text \<open>
  In every launch that spawns the child, whatever the schedule of the event loop, the
  events before the spawn are those of lines 88 to 93 and the call of the process
  launcher: no write has completed, and the only write started is that of \<^verbatim>\<open>user.js\<close>.
\<close>

lemma spawn_before_any_write_completes:
  fixes h c s options connectionType userDataDir port
  defines "L \<equiv> Firefox__launchServer h c s options connectionType userDataDir port initial_world"
  assumes "list_ex is_spawn (trace (snd L))"
  shows "\<exists>lpo. takeWhile (\<lambda>e. \<not> is_spawn e) (trace (snd L))
                 = trace (provisioned h userDataDir) @ [LaunchProcessCalled lpo]"
    and "\<not> list_ex is_write_done (takeWhile (\<lambda>e. \<not> is_spawn e) (trace (snd L)))"
proof -
  have quiet: "\<forall>e \<in> set (trace (provisioned h userDataDir)). \<not> is_spawn e"
    by (simp add: provisioned_def)
  from launch_trace_shape [of h c s options connectionType userDataDir port]
  obtain lpo rest where t: "trace (snd L)
      = (trace (provisioned h userDataDir) @ [LaunchProcessCalled lpo]) @ ProcessSpawned lpo # rest"
    using assms(2) provisioned_no_spawn [of h userDataDir]
    unfolding L_def by auto
  have tw: "takeWhile (\<lambda>e. \<not> is_spawn e) (trace (snd L))
          = trace (provisioned h userDataDir) @ [LaunchProcessCalled lpo]"
    unfolding t using quiet by (subst takeWhile_append2) auto
  then show "\<exists>lpo. takeWhile (\<lambda>e. \<not> is_spawn e) (trace (snd L))
                 = trace (provisioned h userDataDir) @ [LaunchProcessCalled lpo]"
    by blast
  show "\<not> list_ex is_write_done (takeWhile (\<lambda>e. \<not> is_spawn e) (trace (snd L)))"
    unfolding tw by (simp add: provisioned_def)
qed

text \<open>
  Claim C8 says that the writes of \<^verbatim>\<open>user.js\<close> and \<^verbatim>\<open>prefs.js\<close> have completed when the child
  is spawned.  Line 93 calls \<^verbatim>\<open>populateProfile\<close> without awaiting it, and nothing is awaited
  between that call and the call of \<^verbatim>\<open>launchProcess\<close>.  In the launch with default options:
  when the child is spawned the write of \<^verbatim>\<open>user.js\<close> has been started and has not completed,
  and the write of \<^verbatim>\<open>prefs.js\<close> has not been started.
\<close>

theorem spawn_precedes_profile_writes:
  "map event_name
     (trace (snd (Firefox__launchServer linux_host juggler_child prompt_schedule no_options Local None None
                    initial_world)))
     = [''mkdtemp /tmp/playwright_dev_firefox_profile-AbC123'',
        ''writeFile /tmp/playwright_dev_firefox_profile-AbC123/user.js'',
        ''launchProcess'',
        ''spawn /opt/firefox/firefox'',
        ''written /tmp/playwright_dev_firefox_profile-AbC123/user.js'',
        ''writeFile /tmp/playwright_dev_firefox_profile-AbC123/prefs.js'',
        ''written /tmp/playwright_dev_firefox_profile-AbC123/prefs.js'',
        ''ready'', ''new BrowserServer'', ''new WebSocketTransport'']
   \<and> \<not> list_ex is_write_done
         (takeWhile (\<lambda>e. \<not> is_spawn e)
            (trace (snd (Firefox__launchServer linux_host juggler_child prompt_schedule no_options Local
                           None None initial_world))))"
  by (simp add: default_launch) (simp add: process_options_def)

section \<open>Registration of the temporary profile\<close>

text \<open>
  The directories registered in a launch: the created directory when the caller gave no
  profile path and the process launcher was called, and none otherwise.  A directory of
  the caller is never registered.
\<close>

lemma registered_tempDirs_append:
  "registered_tempDirs (xs @ ys) = registered_tempDirs xs @ registered_tempDirs ys"
proof (induction xs)
  case Nil
  show ?case by simp
next
  case (Cons e xs)
  then show ?case by (cases e) (simp_all split: option.splits)
qed

lemma registered_tempDirs_file_events:
  "list_all is_file_event evs \<Longrightarrow> registered_tempDirs evs = []"
proof (induction evs)
  case Nil
  show ?case by simp
next
  case (Cons e evs)
  then show ?case by (cases e) simp_all
qed

lemma registered_tempDirs_readiness_or_handout:
  "list_all is_readiness_or_handout evs \<Longrightarrow> registered_tempDirs evs = []"
proof (induction evs)
  case Nil
  show ?case by simp
next
  case (Cons e evs)
  then show ?case by (cases e) simp_all
qed

lemma file_events_no_launch_call: "list_all is_file_event evs \<Longrightarrow> \<not> list_ex is_launch_call evs"
proof (induction evs)
  case Nil
  show ?case by simp
next
  case (Cons e evs)
  then show ?case by (cases e) simp_all
qed

lemma tempDir_registration:
  fixes h c s options connectionType userDataDir port
  defines "L \<equiv> Firefox__launchServer h c s options connectionType userDataDir port initial_world"
  shows "registered_tempDirs (trace (snd L))
           = (if list_ex is_launch_call (trace (snd L)) \<and> \<not> truthy userDataDir \<and> mkdtemp_result h \<noteq> []
              then [mkdtemp_result h] else [])"
proof -
  define t where "t = (if truthy userDataDir then None else Some (mkdtemp_result h))"
  define before where "before = trace (provisioned h userDataDir)"
  have before: "registered_tempDirs before = []" "\<not> list_ex is_launch_call before"
    by (simp_all add: before_def provisioned_def)
  have lpo: "registered_tempDirs [LaunchProcessCalled (process_options h options t arguments executable)]
               = (if \<not> truthy userDataDir \<and> mkdtemp_result h \<noteq> [] then [mkdtemp_result h] else [])"
    for arguments executable
    by (simp add: process_options_def t_def truthy_def)
  from launch_trace_shape [of h c s options connectionType userDataDir port]
  consider
    (early) "trace (snd L) = before"
  | (called) arguments executable rest where
      "trace (snd L) = before @ [LaunchProcessCalled (process_options h options t arguments executable)] @ rest"
      "registered_tempDirs rest = []"
    unfolding L_def [symmetric] t_def [symmetric] before_def [symmetric]
  proof (elim disjE exE conjE)
    assume "trace (snd L) = before"
    moreover assume "trace (snd L) = before \<Longrightarrow> thesis"
    ultimately show thesis by blast
  next
    fix arguments executable
    assume "trace (snd L) = before @ [LaunchProcessCalled (process_options h options t arguments executable)]"
    then have "trace (snd L) = before @ [LaunchProcessCalled (process_options h options t arguments executable)] @ []"
      "registered_tempDirs [] = []"
      by simp_all
    moreover assume "\<And>arguments executable rest.
       trace (snd L) = before @ [LaunchProcessCalled (process_options h options t arguments executable)] @ rest
       \<Longrightarrow> registered_tempDirs rest = [] \<Longrightarrow> thesis"
    ultimately show thesis by blast
  next
    fix arguments executable evs rest
    assume a: "list_all is_file_event evs" "list_all is_readiness_or_handout rest"
      "trace (snd L) = before
         @ [LaunchProcessCalled (process_options h options t arguments executable),
            ProcessSpawned (process_options h options t arguments executable)] @ evs @ rest"
    let ?rest = "ProcessSpawned (process_options h options t arguments executable) # evs @ rest"
    have "registered_tempDirs ?rest = []"
      using registered_tempDirs_file_events [OF a(1)] registered_tempDirs_readiness_or_handout [OF a(2)]
      by (simp add: registered_tempDirs_append)
    moreover have "trace (snd L) = before
         @ [LaunchProcessCalled (process_options h options t arguments executable)] @ ?rest"
      using a(3) by simp
    moreover assume "\<And>arguments executable rest.
       trace (snd L) = before @ [LaunchProcessCalled (process_options h options t arguments executable)] @ rest
       \<Longrightarrow> registered_tempDirs rest = [] \<Longrightarrow> thesis"
    ultimately show thesis by blast
  qed
  then show ?thesis
  proof cases
    case early
    then show ?thesis
      using before by simp
  next
    case called
    have "list_ex is_launch_call (trace (snd L))"
      by (simp add: called(1))
    moreover have "registered_tempDirs (trace (snd L))
        = (if \<not> truthy userDataDir \<and> mkdtemp_result h \<noteq> [] then [mkdtemp_result h] else [])"
      unfolding called(1) registered_tempDirs_append before(1) lpo called(2)
      by simp
    ultimately show ?thesis by simp
  qed
qed

lemma devtools_launch:
  "Firefox__launchServer linux_host juggler_child prompt_schedule (no_options\<lparr>devtools := Some True\<rparr>)
     Local None None initial_world
     = (Inl (Error (''Option '' @ [CHR 0x22] @ ''devtools'' @ [CHR 0x22] @ '' is not supported by Firefox'')),
        \<lparr>trace =
           [Mkdtemp ''/tmp/playwright_dev_firefox_profile-AbC123'',
            WriteFileCalled ''/tmp/playwright_dev_firefox_profile-AbC123/user.js'' userJS_text],
         background = populateProfile linux_host ''/tmp/playwright_dev_firefox_profile-AbC123''\<rparr>)"
proof -
  have "firefoxArguments (no_options\<lparr>devtools := Some True\<rparr>) (profile_of linux_host None) None
          = Inl (Error (''Option '' @ [CHR 0x22] @ ''devtools'' @ [CHR 0x22] @ '' is not supported by Firefox''))"
    by (simp add: firefoxArguments_def Firefox__defaultArgs_def no_options_def)
  then show ?thesis
    by (simp add: launch_arguments_error)
       (simp add: provisioned_def profile_of_def mkdtemp_result_def linux_host_def truthy_def)
qed

text \<open>
  Claim C9 says that an auto-created profile directory is registered for deletion in
  every launch.  In a launch without a profile path and with the devtools flag set, the
  directory is created, the validation of the arguments then fails, and the process
  launcher is never called: the created directory is registered nowhere.
\<close>

theorem created_profile_not_registered_on_early_failure:
  "created_dirs
     (trace (snd (Firefox__launchServer linux_host juggler_child prompt_schedule
                    (no_options\<lparr>devtools := Some True\<rparr>) Local None None initial_world)))
     = [''/tmp/playwright_dev_firefox_profile-AbC123'']
   \<and> registered_tempDirs
     (trace (snd (Firefox__launchServer linux_host juggler_child prompt_schedule
                    (no_options\<lparr>devtools := Some True\<rparr>) Local None None initial_world)))
     = []
   \<and> isl (fst (Firefox__launchServer linux_host juggler_child prompt_schedule
                    (no_options\<lparr>devtools := Some True\<rparr>) Local None None initial_world))"
  by (simp add: devtools_launch)

section \<open>The library search path\<close>

lemma launch_env_frame:
  "name \<noteq> ''LD_LIBRARY_PATH'' \<Longrightarrow>
     launch_env h options executable name
       = (case env options of None \<Rightarrow> process_env h | Some e \<Rightarrow> e) name"
  by (simp add: launch_env_def Let_def)

text \<open>
  Claim C6 says that the addition to \<^verbatim>\<open>LD_LIBRARY_PATH\<close> extends the caller's value of that
  variable.  On Linux the value passed to the child is the directory of the executable,
  a colon, and the value of the variable in \<^verbatim>\<open>process.env\<close>, whatever the caller's
  environment holds: the caller's \<^verbatim>\<open>/opt/mylibs\<close> is lost, and with the variable unset in
  \<^verbatim>\<open>process.env\<close> the text \<^verbatim>\<open>undefined\<close> is appended.  The other variables of the caller are
  passed unchanged.
\<close>

theorem caller_library_path_clobbered:
  "launch_env linux_host
     (no_options\<lparr>env := Some [''LD_LIBRARY_PATH'' \<mapsto> ''/opt/mylibs'', ''DISPLAY'' \<mapsto> '':0'']\<rparr>)
     ''/opt/firefox/firefox'' ''LD_LIBRARY_PATH''
     = Some ''/opt/firefox:/usr/lib''
   \<and> launch_env linux_host
     (no_options\<lparr>env := Some [''LD_LIBRARY_PATH'' \<mapsto> ''/opt/mylibs'', ''DISPLAY'' \<mapsto> '':0'']\<rparr>)
     ''/opt/firefox/firefox'' ''DISPLAY''
     = Some '':0''
   \<and> launch_env (linux_host\<lparr>process_env := Map.empty\<rparr>)
     (no_options\<lparr>env := Some [''LD_LIBRARY_PATH'' \<mapsto> ''/opt/mylibs'']\<rparr>)
     ''/opt/firefox/firefox'' ''LD_LIBRARY_PATH''
     = Some ''/opt/firefox:undefined''"
  by (simp add: launch_env_def linux_host_def no_options_def template_value_def)

section \<open>The exit notification\<close>

lemma lifecycle_step_notified_once:
  "notified_once sv \<Longrightarrow> notified_once (lifecycle_step sv ev)"
  by (cases ev)
     (auto simp: notified_once_def readiness_confirmed_def process_exits_def onkill_def
        BrowserServer_kill_def BrowserServer_close_def attemptToGracefullyClose_def
        split: option.splits)

lemma lifecycle_step_notified_when_exited:
  "notified_when_exited sv \<Longrightarrow> notified_when_exited (lifecycle_step sv ev)"
  by (cases ev)
     (auto simp: notified_when_exited_def readiness_confirmed_def process_exits_def onkill_def
        BrowserServer_kill_def BrowserServer_close_def attemptToGracefullyClose_def
        split: option.splits)

lemma foldl_notified_once:
  "notified_once sv \<Longrightarrow> notified_once (foldl lifecycle_step sv events)"
  by (induction events arbitrary: sv) (simp_all add: lifecycle_step_notified_once)

lemma foldl_notified_when_exited:
  "notified_when_exited sv \<Longrightarrow> notified_when_exited (foldl lifecycle_step sv events)"
  by (induction events arbitrary: sv) (simp_all add: lifecycle_step_notified_when_exited)

lemma lifecycle_notified_once: "notified_once (lifecycle events)"
  unfolding lifecycle_def
  by (rule foldl_notified_once) (simp add: notified_once_def spawned_def)

lemma lifecycle_step_silent_after_exit:
  "silent_after_exit sv \<Longrightarrow> silent_after_exit (lifecycle_step sv ev)"
  by (cases ev)
     (auto simp: silent_after_exit_def readiness_confirmed_def process_exits_def
        BrowserServer_kill_def BrowserServer_close_def)

lemma foldl_silent_after_exit:
  "silent_after_exit sv \<Longrightarrow> silent_after_exit (foldl lifecycle_step sv events)"
  by (induction events arbitrary: sv) (simp_all add: lifecycle_step_silent_after_exit)

lemma lifecycle_step_notified_only_with_server:
  "notified_only_with_server sv \<Longrightarrow> notified_only_with_server (lifecycle_step sv ev)"
  by (cases ev)
     (auto simp: notified_only_with_server_def readiness_confirmed_def process_exits_def onkill_def
        BrowserServer_kill_def BrowserServer_close_def attemptToGracefullyClose_def)

lemma foldl_notified_only_with_server:
  "notified_only_with_server sv \<Longrightarrow> notified_only_with_server (foldl lifecycle_step sv events)"
  by (induction events arbitrary: sv) (simp_all add: lifecycle_step_notified_only_with_server)

lemma lifecycle_notified_only_with_server: "notified_only_with_server (lifecycle events)"
  unfolding lifecycle_def
  by (rule foldl_notified_only_with_server) (simp add: notified_only_with_server_def spawned_def)

text \<open>
  Claim C7, as amended.  Whatever the caller and the child do after the launch, the exit
  notification is emitted at most once and never before the child has exited.  When the
  child is alive at a moment the server handle exists (readiness was confirmed) and exits
  later, whether by itself, after a graceful close or by a forced kill, the notification
  is emitted exactly once and carries the exit code and signal of that exit.  In
  particular two calls of close around the exit of the child give one notification.
  When the child has exited at a moment no server handle exists (before readiness was
  confirmed), no notification is emitted, then or later.
\<close>

theorem exit_notification_after_readiness:
  "length (Close_emitted (lifecycle events)) \<le> 1
   \<and> (exit_status (lifecycle events) = None \<longrightarrow> Close_emitted (lifecycle events) = [])
   \<and> (sv_browserServer (lifecycle before) \<noteq> None \<and> exit_status (lifecycle before) = None
        \<and> exit_status (lifecycle (before @ events)) = Some status
      \<longrightarrow> Close_emitted (lifecycle (before @ events)) = [status])
   \<and> (sv_browserServer (lifecycle before) = None \<and> exit_status (lifecycle before) \<noteq> None
      \<longrightarrow> Close_emitted (lifecycle (before @ events)) = [])
   \<and> Close_emitted (lifecycle [ReadinessConfirmed endpoint connectionType, CloseCalled,
                                 ChildExits exitCode signal, CloseCalled]) = [(exitCode, signal)]"
proof -
  have e: "Close_emitted (lifecycle (before @ events)) = []"
    if "sv_browserServer (lifecycle before) = None" "exit_status (lifecycle before) \<noteq> None"
  proof -
    have "notified_only_with_server (lifecycle before)"
      by (rule lifecycle_notified_only_with_server)
    with that have "silent_after_exit (lifecycle before)"
      by (simp add: notified_only_with_server_def silent_after_exit_def)
    then have "silent_after_exit (foldl lifecycle_step (lifecycle before) events)"
      by (rule foldl_silent_after_exit)
    then show ?thesis
      by (simp add: lifecycle_def silent_after_exit_def)
  qed
  have once: "notified_once (lifecycle events)"
    by (rule lifecycle_notified_once)
  have a: "length (Close_emitted (lifecycle events)) \<le> 1"
    using once by (auto simp: notified_once_def split: option.splits)
  have b: "exit_status (lifecycle events) = None \<longrightarrow> Close_emitted (lifecycle events) = []"
    using once by (auto simp: notified_once_def split: option.splits)
  have c: "Close_emitted (lifecycle (before @ events)) = [status]"
    if "sv_browserServer (lifecycle before) \<noteq> None" "exit_status (lifecycle before) = None"
      "exit_status (lifecycle (before @ events)) = Some status"
  proof -
    have "notified_once (lifecycle before)"
      by (rule lifecycle_notified_once)
    with that(1,2) have "notified_when_exited (lifecycle before)"
      by (simp add: notified_once_def notified_when_exited_def)
    then have "notified_when_exited (foldl lifecycle_step (lifecycle before) events)"
      by (rule foldl_notified_when_exited)
    then have "notified_when_exited (lifecycle (before @ events))"
      by (simp add: lifecycle_def)
    with that(3) show ?thesis
      by (simp add: notified_when_exited_def)
  qed
  have d: "Close_emitted (lifecycle [ReadinessConfirmed endpoint connectionType, CloseCalled,
                                 ChildExits exitCode signal, CloseCalled]) = [(exitCode, signal)]"
    by (simp add: lifecycle_def spawned_def readiness_confirmed_def process_exits_def onkill_def
          BrowserServer_close_def attemptToGracefullyClose_def)
  from a b c d e show ?thesis by blast
qed

theorem exit_notification_after_readiness_witness:
  "length (Close_emitted (lifecycle [ReadinessConfirmed ''ws://127.0.0.1:9222/abc'' Local, KillCalled, CloseCalled])) \<le> 1
   \<and> Close_emitted (lifecycle ([ReadinessConfirmed ''ws://127.0.0.1:9222/abc'' Local]
                                  @ [KillCalled, CloseCalled]))
       = [(None, Some ''SIGKILL'')]
   \<and> Close_emitted (lifecycle ([ReadinessConfirmed ''ws://127.0.0.1:9222/abc'' Local]
                                  @ [CloseCalled, CloseCalled, ChildExits (Some 0) None]))
       = [(Some 0, None)]
   \<and> Browser_close_sent (lifecycle ([ReadinessConfirmed ''ws://127.0.0.1:9222/abc'' Local]
                                  @ [CloseCalled, CloseCalled, ChildExits (Some 0) None]))
       = [''ws://127.0.0.1:9222/abc'']
   \<and> Close_emitted (lifecycle ([ChildExits None (Some ''SIGSEGV'')] @ [CloseCalled, KillCalled])) = []"
proof -
  have x: "sv_browserServer (lifecycle [ChildExits None (Some ''SIGSEGV'')]) = None
           \<and> exit_status (lifecycle [ChildExits None (Some ''SIGSEGV'')]) \<noteq> None"
    by (simp add: lifecycle_def spawned_def process_exits_def onkill_def)
  have r: "sv_browserServer (lifecycle [ReadinessConfirmed ''ws://127.0.0.1:9222/abc'' Local]) \<noteq> None
           \<and> exit_status (lifecycle [ReadinessConfirmed ''ws://127.0.0.1:9222/abc'' Local]) = None"
    by (simp add: lifecycle_def spawned_def readiness_confirmed_def)
  have k: "exit_status (lifecycle ([ReadinessConfirmed ''ws://127.0.0.1:9222/abc'' Local]
                                  @ [KillCalled, CloseCalled])) = Some (None, Some ''SIGKILL'')"
    by (simp add: lifecycle_def spawned_def readiness_confirmed_def process_exits_def onkill_def
          BrowserServer_close_def BrowserServer_kill_def attemptToGracefullyClose_def)
  have e: "exit_status (lifecycle ([ReadinessConfirmed ''ws://127.0.0.1:9222/abc'' Local]
                                  @ [CloseCalled, CloseCalled, ChildExits (Some 0) None])) = Some (Some 0, None)"
    by (simp add: lifecycle_def spawned_def readiness_confirmed_def process_exits_def onkill_def
          BrowserServer_close_def BrowserServer_kill_def attemptToGracefullyClose_def)
  have s: "Browser_close_sent (lifecycle ([ReadinessConfirmed ''ws://127.0.0.1:9222/abc'' Local]
                                  @ [CloseCalled, CloseCalled, ChildExits (Some 0) None]))
       = [''ws://127.0.0.1:9222/abc'']"
    by (simp add: lifecycle_def spawned_def readiness_confirmed_def process_exits_def onkill_def
          BrowserServer_close_def BrowserServer_kill_def attemptToGracefullyClose_def template_value_def)
  show ?thesis
    using exit_notification_after_readiness
            [where events = "[KillCalled, CloseCalled]"
               and before = "[ReadinessConfirmed ''ws://127.0.0.1:9222/abc'' Local]"
               and status = "(None, Some ''SIGKILL'')"]
          exit_notification_after_readiness
            [where events = "[CloseCalled, CloseCalled, ChildExits (Some 0) None]"
               and before = "[ReadinessConfirmed ''ws://127.0.0.1:9222/abc'' Local]"
               and status = "(Some 0, None)"]
          exit_notification_after_readiness
            [where events = "[ReadinessConfirmed ''ws://127.0.0.1:9222/abc'' Local, KillCalled, CloseCalled]"]
          exit_notification_after_readiness
            [where events = "[CloseCalled, KillCalled]"
               and before = "[ChildExits None (Some ''SIGSEGV'')]"]
          r k e s x
    by simp
qed

text \<open>
  The claim as stated fails for a child that exits before readiness is confirmed: the
  callback finds no server handle and emits nothing, then and later.
\<close>

theorem exit_before_readiness_not_notified:
  "exit_status (lifecycle [ChildExits (Some 1) None]) = Some (Some 1, None)
   \<and> Close_emitted (lifecycle [ChildExits (Some 1) None]) = []
   \<and> Close_emitted (lifecycle [ChildExits (Some 1) None, CloseCalled, KillCalled]) = []"
  by (simp add: lifecycle_def spawned_def process_exits_def onkill_def
        BrowserServer_close_def BrowserServer_kill_def)

section \<open>The files of the profile\<close>

declare nat_digits.simps [simp del]

lemma split_lines_single: "CHR 0x0A \<notin> set x \<Longrightarrow> split_lines x = [x]"
  by (induction x) (auto split: list.splits)

lemma split_lines_append:
  "CHR 0x0A \<notin> set x \<Longrightarrow> split_lines (x @ CHR 0x0A # rest) = x # split_lines rest"
  by (induction x) (auto split: list.splits)

lemma split_lines_join:
  "xs \<noteq> [] \<Longrightarrow> list_all (\<lambda>x. CHR 0x0A \<notin> set x) xs \<Longrightarrow> split_lines (Array_join xs [CHR 0x0A]) = xs"
proof (induction xs "[CHR 0x0A]" rule: Array_join.induct)
  case 1
  then show ?case by simp
next
  case (2 x)
  then show ?case by (simp add: split_lines_single)
next
  case (3 x y ys)
  then show ?case by (simp add: split_lines_append)
qed

lemma digit_cases:
  "k < 10 \<Longrightarrow> k = 0 \<or> k = 1 \<or> k = 2 \<or> k = 3 \<or> k = 4 \<or> k = 5 \<or> k = 6 \<or> k = 7 \<or> k = 8 \<or> k = (9::nat)"
  by arith

lemma digit_value_digit:
  assumes "k < 10"
  shows "digit_value (''0123456789'' ! k) = Some k"
  using digit_cases [OF assms] by (elim disjE) (simp_all add: digit_value_def)

lemma digit_no_minus:
  assumes "k < 10"
  shows "''0123456789'' ! k \<noteq> CHR ''-''"
  using digit_cases [OF assms] by (elim disjE) simp_all

lemma digit_no_newline:
  assumes "k < 10"
  shows "''0123456789'' ! k \<noteq> CHR 0x0A"
  using digit_cases [OF assms] by (elim disjE) simp_all

lemma nat_digits_no_newline: "CHR 0x0A \<notin> set (nat_digits n)"
proof (induction n rule: nat_digits.induct)
  case (1 n)
  show ?case
  proof (cases "n < 10")
    case True
    then show ?thesis
      using digit_no_newline [of n] by (subst nat_digits.simps) simp
  next
    case False
    then show ?thesis
      using "1.IH" digit_no_newline [of "n mod 10"] by (subst nat_digits.simps) simp
  qed
qed

lemma nat_digits_first: "\<exists>c cs. nat_digits n = c # cs \<and> c \<noteq> CHR ''-''"
proof (induction n rule: nat_digits.induct)
  case (1 n)
  show ?case
  proof (cases "n < 10")
    case True
    then show ?thesis
      using digit_no_minus [of n] by (subst nat_digits.simps) simp
  next
    case False
    then obtain c cs where "nat_digits (n div 10) = c # cs" and "c \<noteq> CHR ''-''"
      using "1.IH" by blast
    then show ?thesis
      using False by (subst nat_digits.simps) simp
  qed
qed

lemma read_digits_append:
  "read_digits acc (xs @ ys) = (case read_digits acc xs of None \<Rightarrow> None | Some v \<Rightarrow> read_digits v ys)"
  by (induction xs arbitrary: acc) (simp_all split: option.splits)

lemma read_nat_digits: "read_digits 0 (nat_digits n) = Some n"
proof (induction n rule: nat_digits.induct)
  case (1 n)
  show ?case
  proof (cases "n < 10")
    case True
    then show ?thesis
      by (subst nat_digits.simps) (simp add: digit_value_digit)
  next
    case False
    then have "read_digits 0 (nat_digits (n div 10)) = Some (n div 10)"
      using "1.IH" by simp
    then show ?thesis
      using False by (subst nat_digits.simps) (simp add: read_digits_append digit_value_digit)
  qed
qed

lemma read_decimal_decimal: "read_decimal (decimal n) = Some n"
proof (cases "n < 0")
  case True
  obtain c cs where "nat_digits (nat (- n)) = c # cs"
    using nat_digits_first by blast
  then show ?thesis
    using True read_nat_digits [of "nat (- n)"] by (simp add: read_decimal_def decimal_def)
next
  case False
  obtain c cs where "nat_digits (nat n) = c # cs" and "c \<noteq> CHR ''-''"
    using nat_digits_first by blast
  then show ?thesis
    using False read_nat_digits [of "nat n"] by (simp add: read_decimal_def decimal_def)
qed

lemma decimal_no_newline: "CHR 0x0A \<notin> set (decimal n)"
  by (simp add: decimal_def nat_digits_no_newline)

lemma hex_digit_no_newline: "k < 16 \<Longrightarrow> hex_digit k \<noteq> CHR 0x0A"
proof -
  assume "k < 16"
  then have "''0123456789abcdef'' ! k \<in> set ''0123456789abcdef''"
    by (intro nth_mem) simp
  then show ?thesis
    unfolding hex_digit_def by auto
qed

lemma quote_char_no_newline: "CHR 0x0A \<notin> set (quote_char c)"
proof (cases "(of_char c :: nat) < 32")
  case True
  then have "(of_char c :: nat) div 16 < 16" and "(of_char c :: nat) mod 16 < 16"
    by simp_all
  then have "hex_digit ((of_char c :: nat) div 16) \<noteq> CHR 0x0A"
    and "hex_digit ((of_char c :: nat) mod 16) \<noteq> CHR 0x0A"
    by (simp_all only: hex_digit_no_newline not_False_eq_True)
  then show ?thesis
    by (simp add: quote_char_def)
next
  case False
  then show ?thesis
    by (auto simp: quote_char_def)
qed

lemma quote_string_no_newline: "CHR 0x0A \<notin> set (quote_string s)"
  by (induction s) (simp_all add: quote_string_def quote_char_no_newline)

lemma JSON_stringify_no_newline: "integer_or_text v \<Longrightarrow> CHR 0x0A \<notin> set (JSON_stringify v)"
proof (cases v)
  case (JNumber x)
  assume "integer_or_text v"
  then show ?thesis
    using JNumber by (cases x) (simp_all add: decimal_no_newline)
qed (simp_all add: quote_string_no_newline)

lemma user_pref_no_newline: "integer_or_text (snd entry) \<Longrightarrow> CHR 0x0A \<notin> set (user_pref entry)"
  by (cases entry) (simp add: user_pref_def JSON_stringify_no_newline quote_string_no_newline)

lemma DEFAULT_PREFERENCES_nonempty: "DEFAULT_PREFERENCES \<noteq> []"
  by (simp add: DEFAULT_PREFERENCES_def)

lemma quote_char_plain: "plain_char c \<Longrightarrow> quote_char c = [c]"
  by (auto simp: plain_char_def quote_char_def)

lemma quote_string_plain:
  "list_all plain_char s \<Longrightarrow> quote_string s = [CHR 0x22] @ s @ [CHR 0x22]"
  by (induction s) (auto simp: quote_string_def quote_char_plain)

lemma DEFAULT_PREFERENCES_plain:
  "list_all (\<lambda>(key, v). list_all plain_char key \<and> plain_value v) DEFAULT_PREFERENCES"
  by (simp add: DEFAULT_PREFERENCES_def DUMMY_UMA_SERVER_def plain_char_def)

lemma userJS_lines: "split_lines userJS_text = map user_pref DEFAULT_PREFERENCES"
proof -
  have "integer_or_text v" if "plain_value v" for v
    using that by (cases v) simp_all
  then have "list_all (\<lambda>entry. integer_or_text (snd entry)) DEFAULT_PREFERENCES"
    using DEFAULT_PREFERENCES_plain unfolding list_all_iff by fastforce
  then have "list_all (\<lambda>x. CHR 0x0A \<notin> set x) (map user_pref DEFAULT_PREFERENCES)"
    unfolding list_all_iff by (auto simp: user_pref_no_newline)
  then show ?thesis
    unfolding userJS_text_def
    by (intro split_lines_join) (simp_all add: DEFAULT_PREFERENCES_nonempty)
qed

lemma DEFAULT_PREFERENCES_keys_distinct: "distinct (map fst DEFAULT_PREFERENCES)"
  by (simp add: DEFAULT_PREFERENCES_def)

lemma user_pref_lines:
  \<open>map user_pref DEFAULT_PREFERENCES =
     [''user_pref("app.normandy.api_url", "");'',
      ''user_pref("app.update.checkInstallTime", false);'',
      ''user_pref("app.update.disabledForTesting", true);'',
      ''user_pref("apz.content_response_timeout", 60000);'',
      ''user_pref("browser.contentblocking.features.standard", "-tp,tpPrivate,cookieBehavior0,-cm,-fp");'',
      ''user_pref("browser.dom.window.dump.enabled", true);'',
      ''user_pref("browser.newtabpage.activity-stream.feeds.section.topstories", false);'',
      ''user_pref("browser.newtabpage.enabled", false);'',
      ''user_pref("browser.pagethumbnails.capturing_disabled", true);'',
      ''user_pref("browser.safebrowsing.blockedURIs.enabled", false);'',
      ''user_pref("browser.safebrowsing.downloads.enabled", false);'',
      ''user_pref("browser.safebrowsing.malware.enabled", false);'',
      ''user_pref("browser.safebrowsing.passwords.enabled", false);'',
      ''user_pref("browser.safebrowsing.phishing.enabled", false);'',
      ''user_pref("browser.search.update", false);'',
      ''user_pref("browser.sessionstore.resume_from_crash", false);'',
      ''user_pref("browser.shell.checkDefaultBrowser", false);'',
      ''user_pref("browser.startup.homepage", "about:blank");'',
      ''user_pref("browser.startup.homepage_override.mstone", "ignore");'',
      ''user_pref("browser.startup.page", 0);'',
      ''user_pref("browser.tabs.disableBackgroundZombification", false);'',
      ''user_pref("browser.tabs.warnOnCloseOtherTabs", false);'',
      ''user_pref("browser.tabs.warnOnOpen", false);'',
      ''user_pref("browser.uitour.enabled", false);'',
      ''user_pref("browser.urlbar.suggest.searches", false);'',
      ''user_pref("browser.usedOnWindows10.introURL", "");'',
      ''user_pref("browser.warnOnQuit", false);'',
      ''user_pref("datareporting.healthreport.about.reportUrl", "http://dummy.test/dummy/abouthealthreport/");'',
      ''user_pref("datareporting.healthreport.documentServerURI", "http://dummy.test/dummy/healthreport/");'',
      ''user_pref("datareporting.healthreport.logging.consoleEnabled", false);'',
      ''user_pref("datareporting.healthreport.service.enabled", false);'',
      ''user_pref("datareporting.healthreport.service.firstRun", false);'',
      ''user_pref("datareporting.healthreport.uploadEnabled", false);'',
      ''user_pref("datareporting.policy.dataSubmissionEnabled", false);'',
      ''user_pref("datareporting.policy.dataSubmissionPolicyAccepted", false);'',
      ''user_pref("datareporting.policy.dataSubmissionPolicyBypassNotification", true);'',
      ''user_pref("devtools.jsonview.enabled", false);'',
      ''user_pref("dom.disable_open_during_load", false);'',
      ''user_pref("dom.file.createInChild", true);'',
      ''user_pref("dom.ipc.reportProcessHangs", false);'',
      ''user_pref("dom.max_chrome_script_run_time", 0);'',
      ''user_pref("dom.max_script_run_time", 0);'',
      ''user_pref("extensions.autoDisableScopes", 0);'',
      ''user_pref("extensions.enabledScopes", 5);'',
      ''user_pref("extensions.getAddons.cache.enabled", false);'',
      ''user_pref("extensions.installDistroAddons", false);'',
      ''user_pref("extensions.screenshots.disabled", true);'',
      ''user_pref("extensions.update.enabled", false);'',
      ''user_pref("extensions.update.notifyUser", false);'',
      ''user_pref("extensions.webservice.discoverURL", "http://dummy.test/dummy/discoveryURL");'',
      ''user_pref("focusmanager.testmode", true);'',
      ''user_pref("general.useragent.updates.enabled", false);'',
      ''user_pref("geo.provider.testing", true);'',
      ''user_pref("geo.wifi.scan", false);'',
      ''user_pref("gfx.color_management.mode", 0);'',
      ''user_pref("gfx.color_management.rendering_intent", 3);'',
      ''user_pref("hangmonitor.timeout", 0);'',
      ''user_pref("javascript.options.showInConsole", true);'',
      ''user_pref("media.gmp-manager.updateEnabled", false);'',
      ''user_pref("network.cookie.cookieBehavior", 0);'',
      ''user_pref("network.http.prompt-temp-redirect", false);'',
      ''user_pref("network.http.speculative-parallel-limit", 0);'',
      ''user_pref("network.manage-offline-status", false);'',
      ''user_pref("network.sntp.pools", "dummy.test");'',
      ''user_pref("plugin.state.flash", 0);'',
      ''user_pref("privacy.trackingprotection.enabled", false);'',
      ''user_pref("remote.enabled", true);'',
      ''user_pref("security.certerrors.mitm.priming.enabled", false);'',
      ''user_pref("security.fileuri.strict_origin_policy", false);'',
      ''user_pref("security.notification_enable_delay", 0);'',
      ''user_pref("services.settings.server", "http://dummy.test/dummy/blocklist/");'',
      ''user_pref("browser.tabs.documentchannel", false);'',
      ''user_pref("signon.autofillForms", false);'',
      ''user_pref("signon.rememberSignons", false);'',
      ''user_pref("startup.homepage_welcome_url", "about:blank");'',
      ''user_pref("startup.homepage_welcome_url.additional", "");'',
      ''user_pref("toolkit.cosmeticAnimations.enabled", false);'',
      ''user_pref("toolkit.telemetry.server", "https://dummy.test/dummy/telemetry/");'',
      ''user_pref("toolkit.startup.max_resumed_crashes", -1);'']\<close>
  by (simp add: DEFAULT_PREFERENCES_def DUMMY_UMA_SERVER_def user_pref_def quote_string_def
        quote_char_def decimal_def nat_digits.simps)

lemma DEFAULT_PREFERENCES_described:
  "list_all (\<lambda>(key, v). user_pref (key, v)
                 = ''user_pref('' @ [CHR 0x22] @ key @ [CHR 0x22] @ '', '' @ JSON_stringify v @ '');''
               \<and> (case v of
                    JString s \<Rightarrow> JSON_stringify v = [CHR 0x22] @ s @ [CHR 0x22]
                  | JBoolean b \<Rightarrow> JSON_stringify v = (if b then ''true'' else ''false'')
                  | JNumber x \<Rightarrow>
                      (case x of
                         Integer n \<Rightarrow> JSON_stringify v = decimal n \<and> read_decimal (JSON_stringify v) = Some n
                       | _ \<Rightarrow> False)))
        DEFAULT_PREFERENCES"
proof -
  have "user_pref (key, v)
                 = ''user_pref('' @ [CHR 0x22] @ key @ [CHR 0x22] @ '', '' @ JSON_stringify v @ '');''
               \<and> (case v of
                    JString s \<Rightarrow> JSON_stringify v = [CHR 0x22] @ s @ [CHR 0x22]
                  | JBoolean b \<Rightarrow> JSON_stringify v = (if b then ''true'' else ''false'')
                  | JNumber x \<Rightarrow>
                      (case x of
                         Integer n \<Rightarrow> JSON_stringify v = decimal n \<and> read_decimal (JSON_stringify v) = Some n
                       | _ \<Rightarrow> False))"
    if plain: "list_all plain_char key \<and> plain_value v" for key v
  proof (cases v)
    case (JString s)
    then show ?thesis
      using plain by (simp add: user_pref_def quote_string_plain)
  next
    case (JBoolean b)
    then show ?thesis
      using plain by (simp add: user_pref_def quote_string_plain)
  next
    case (JNumber x)
    then show ?thesis
      using plain by (cases x) (simp_all add: user_pref_def quote_string_plain read_decimal_decimal)
  qed
  then show ?thesis
    using DEFAULT_PREFERENCES_plain
    unfolding list_all_iff by fast
qed

text \<open>
  Claim C5.  \<^verbatim>\<open>populateProfile\<close> writes two files into the profile directory: \<^verbatim>\<open>user.js\<close> and
  an empty \<^verbatim>\<open>prefs.js\<close>.  The lines of \<^verbatim>\<open>user.js\<close> are the 79 lines written out below, one
  for each entry of the preference table in the order of the table; no key occurs twice.
  Each line is \<^verbatim>\<open>user_pref(\<close>, the key between double quotes, a comma and a space, the JSON
  text of the value, and \<^verbatim>\<open>);\<close>.  The JSON text of a string value is the string itself
  between double quotes, that of a boolean is \<^verbatim>\<open>true\<close> or \<^verbatim>\<open>false\<close>, and every number of the
  table is an integer whose JSON text is its decimal digits, after a minus sign when it is
  negative; reading the JSON text of any integer back as a decimal numeral gives the
  integer.
\<close>

theorem populateProfile_files:
  \<open>populateProfile h profilePath =
     [(path_join h profilePath ''user.js'', userJS_text), (path_join h profilePath ''prefs.js'', [])]
   \<and> split_lines userJS_text =
     [''user_pref("app.normandy.api_url", "");'',
     ''user_pref("app.update.checkInstallTime", false);'',
     ''user_pref("app.update.disabledForTesting", true);'',
     ''user_pref("apz.content_response_timeout", 60000);'',
     ''user_pref("browser.contentblocking.features.standard", "-tp,tpPrivate,cookieBehavior0,-cm,-fp");'',
     ''user_pref("browser.dom.window.dump.enabled", true);'',
     ''user_pref("browser.newtabpage.activity-stream.feeds.section.topstories", false);'',
     ''user_pref("browser.newtabpage.enabled", false);'',
     ''user_pref("browser.pagethumbnails.capturing_disabled", true);'',
     ''user_pref("browser.safebrowsing.blockedURIs.enabled", false);'',
     ''user_pref("browser.safebrowsing.downloads.enabled", false);'',
     ''user_pref("browser.safebrowsing.malware.enabled", false);'',
     ''user_pref("browser.safebrowsing.passwords.enabled", false);'',
     ''user_pref("browser.safebrowsing.phishing.enabled", false);'',
     ''user_pref("browser.search.update", false);'',
     ''user_pref("browser.sessionstore.resume_from_crash", false);'',
     ''user_pref("browser.shell.checkDefaultBrowser", false);'',
     ''user_pref("browser.startup.homepage", "about:blank");'',
     ''user_pref("browser.startup.homepage_override.mstone", "ignore");'',
     ''user_pref("browser.startup.page", 0);'',
     ''user_pref("browser.tabs.disableBackgroundZombification", false);'',
     ''user_pref("browser.tabs.warnOnCloseOtherTabs", false);'',
     ''user_pref("browser.tabs.warnOnOpen", false);'',
     ''user_pref("browser.uitour.enabled", false);'',
     ''user_pref("browser.urlbar.suggest.searches", false);'',
     ''user_pref("browser.usedOnWindows10.introURL", "");'',
     ''user_pref("browser.warnOnQuit", false);'',
     ''user_pref("datareporting.healthreport.about.reportUrl", "http://dummy.test/dummy/abouthealthreport/");'',
     ''user_pref("datareporting.healthreport.documentServerURI", "http://dummy.test/dummy/healthreport/");'',
     ''user_pref("datareporting.healthreport.logging.consoleEnabled", false);'',
     ''user_pref("datareporting.healthreport.service.enabled", false);'',
     ''user_pref("datareporting.healthreport.service.firstRun", false);'',
     ''user_pref("datareporting.healthreport.uploadEnabled", false);'',
     ''user_pref("datareporting.policy.dataSubmissionEnabled", false);'',
     ''user_pref("datareporting.policy.dataSubmissionPolicyAccepted", false);'',
     ''user_pref("datareporting.policy.dataSubmissionPolicyBypassNotification", true);'',
     ''user_pref("devtools.jsonview.enabled", false);'',
     ''user_pref("dom.disable_open_during_load", false);'',
     ''user_pref("dom.file.createInChild", true);'',
     ''user_pref("dom.ipc.reportProcessHangs", false);'',
     ''user_pref("dom.max_chrome_script_run_time", 0);'',
     ''user_pref("dom.max_script_run_time", 0);'',
     ''user_pref("extensions.autoDisableScopes", 0);'',
     ''user_pref("extensions.enabledScopes", 5);'',
     ''user_pref("extensions.getAddons.cache.enabled", false);'',
     ''user_pref("extensions.installDistroAddons", false);'',
     ''user_pref("extensions.screenshots.disabled", true);'',
     ''user_pref("extensions.update.enabled", false);'',
     ''user_pref("extensions.update.notifyUser", false);'',
     ''user_pref("extensions.webservice.discoverURL", "http://dummy.test/dummy/discoveryURL");'',
     ''user_pref("focusmanager.testmode", true);'',
     ''user_pref("general.useragent.updates.enabled", false);'',
     ''user_pref("geo.provider.testing", true);'',
     ''user_pref("geo.wifi.scan", false);'',
     ''user_pref("gfx.color_management.mode", 0);'',
     ''user_pref("gfx.color_management.rendering_intent", 3);'',
     ''user_pref("hangmonitor.timeout", 0);'',
     ''user_pref("javascript.options.showInConsole", true);'',
     ''user_pref("media.gmp-manager.updateEnabled", false);'',
     ''user_pref("network.cookie.cookieBehavior", 0);'',
     ''user_pref("network.http.prompt-temp-redirect", false);'',
     ''user_pref("network.http.speculative-parallel-limit", 0);'',
     ''user_pref("network.manage-offline-status", false);'',
     ''user_pref("network.sntp.pools", "dummy.test");'',
     ''user_pref("plugin.state.flash", 0);'',
     ''user_pref("privacy.trackingprotection.enabled", false);'',
     ''user_pref("remote.enabled", true);'',
     ''user_pref("security.certerrors.mitm.priming.enabled", false);'',
     ''user_pref("security.fileuri.strict_origin_policy", false);'',
     ''user_pref("security.notification_enable_delay", 0);'',
     ''user_pref("services.settings.server", "http://dummy.test/dummy/blocklist/");'',
     ''user_pref("browser.tabs.documentchannel", false);'',
     ''user_pref("signon.autofillForms", false);'',
     ''user_pref("signon.rememberSignons", false);'',
     ''user_pref("startup.homepage_welcome_url", "about:blank");'',
     ''user_pref("startup.homepage_welcome_url.additional", "");'',
     ''user_pref("toolkit.cosmeticAnimations.enabled", false);'',
     ''user_pref("toolkit.telemetry.server", "https://dummy.test/dummy/telemetry/");'',
     ''user_pref("toolkit.startup.max_resumed_crashes", -1);'']
   \<and> split_lines userJS_text = map user_pref DEFAULT_PREFERENCES
   \<and> length (split_lines userJS_text) = 79
   \<and> distinct (map fst DEFAULT_PREFERENCES)
   \<and> list_all (\<lambda>(key, v). user_pref (key, v)
                 = ''user_pref('' @ [CHR 0x22] @ key @ [CHR 0x22] @ '', '' @ JSON_stringify v @ '');''
               \<and> (case v of
                    JString s \<Rightarrow> JSON_stringify v = [CHR 0x22] @ s @ [CHR 0x22]
                  | JBoolean b \<Rightarrow> JSON_stringify v = (if b then ''true'' else ''false'')
                  | JNumber x \<Rightarrow>
                      (case x of
                         Integer n \<Rightarrow> JSON_stringify v = decimal n \<and> read_decimal (JSON_stringify v) = Some n
                       | _ \<Rightarrow> False)))
        DEFAULT_PREFERENCES
   \<and> (\<forall>n. read_decimal (JSON_stringify (JNumber (Integer n))) = Some n)\<close>
  apply (intro conjI allI)
  subgoal by (rule populateProfile_writes)
  subgoal unfolding userJS_lines by (rule user_pref_lines)
  subgoal by (rule userJS_lines)
  subgoal unfolding userJS_lines by (simp add: DEFAULT_PREFERENCES_def)
  subgoal by (rule DEFAULT_PREFERENCES_keys_distinct)
  subgoal by (rule DEFAULT_PREFERENCES_described)
  subgoal by (simp add: read_decimal_decimal)
  done

end
